theory Spec2Isabelle
  imports Complex_Main "HOL-Library.Multiset"
begin

section \<open>Strings\<close>

text \<open>
  The program is TypeScript. Its strings are modelled as \<open>string\<close>: a list of code units
  below 256 (the Latin-1 range), so \<open>length\<close> is the \<open>.length\<close> of the source and
  \<open>s ! i\<close> its \<open>s[i]\<close>. File names and cell texts with code units above 255 are
  outside the model.
\<close>

text \<open>
  \<open>isWhiteSpace\<close> is the white space of \<open>String.prototype.trim\<close> and of the regular
  expression class \<open>\s\<close>, restricted to code units below 256: tab, line feed, vertical
  tab, form feed, carriage return, space and no-break space.
\<close>

definition isWhiteSpace :: "char \<Rightarrow> bool" where
  "isWhiteSpace c =
     (c \<in> set [CHR 0x09, CHR 0x0A, CHR 0x0B, CHR 0x0C, CHR 0x0D, CHR 0x20, CHR 0xA0])"

definition trim :: "string \<Rightarrow> string" where
  "trim s = rev (dropWhile isWhiteSpace (rev (dropWhile isWhiteSpace s)))"

definition upperChars :: string where
  "upperChars = ''ABCDEFGHIJKLMNOPQRSTUVWXYZ'' @
     [CHR 0xC0, CHR 0xC1, CHR 0xC2, CHR 0xC3, CHR 0xC4, CHR 0xC5, CHR 0xC6, CHR 0xC7,
      CHR 0xC8, CHR 0xC9, CHR 0xCA, CHR 0xCB, CHR 0xCC, CHR 0xCD, CHR 0xCE, CHR 0xCF,
      CHR 0xD0, CHR 0xD1, CHR 0xD2, CHR 0xD3, CHR 0xD4, CHR 0xD5, CHR 0xD6,
      CHR 0xD8, CHR 0xD9, CHR 0xDA, CHR 0xDB, CHR 0xDC, CHR 0xDD, CHR 0xDE]"

definition lowerChars :: string where
  "lowerChars = ''abcdefghijklmnopqrstuvwxyz'' @
     [CHR 0xE0, CHR 0xE1, CHR 0xE2, CHR 0xE3, CHR 0xE4, CHR 0xE5, CHR 0xE6, CHR 0xE7,
      CHR 0xE8, CHR 0xE9, CHR 0xEA, CHR 0xEB, CHR 0xEC, CHR 0xED, CHR 0xEE, CHR 0xEF,
      CHR 0xF0, CHR 0xF1, CHR 0xF2, CHR 0xF3, CHR 0xF4, CHR 0xF5, CHR 0xF6,
      CHR 0xF8, CHR 0xF9, CHR 0xFA, CHR 0xFB, CHR 0xFC, CHR 0xFD, CHR 0xFE]"

text \<open>
  \<open>String.prototype.toLowerCase\<close> on code units below 256: the letters A to Z and the
  accented capitals 0xC0 to 0xDE (the multiplication sign 0xD7 apart) move to their lower
  case; every other code unit stays.
\<close>

definition toLowerChar :: "char \<Rightarrow> char" where
  "toLowerChar c = (case map_of (zip upperChars lowerChars) c of Some l \<Rightarrow> l | None \<Rightarrow> c)"

definition toLowerCase :: "string \<Rightarrow> string" where
  "toLowerCase s = map toLowerChar s"

text \<open>\<open>includesStr s p\<close> is \<open>s.includes(p)\<close>: \<open>p\<close> occurs in \<open>s\<close> as a contiguous run.\<close>

fun startsWith :: "string \<Rightarrow> string \<Rightarrow> bool" where
  "startsWith [] s = True"
| "startsWith (p # ps) [] = False"
| "startsWith (p # ps) (c # cs) = (p = c \<and> startsWith ps cs)"

fun includesStr :: "string \<Rightarrow> string \<Rightarrow> bool" where
  "includesStr [] p = (p = [])"
| "includesStr (c # cs) p = (startsWith p (c # cs) \<or> includesStr cs p)"

subsection \<open>The pieces of the regular expressions\<close>

text \<open>
  All regular expressions of the source carry the flag \<open>i\<close>. A pattern character matches an
  input character when both have the same case folding; on code units below 256 this is
  equality of the lower cases.
\<close>

definition eqIgnoreCase :: "char \<Rightarrow> char \<Rightarrow> bool" where
  "eqIgnoreCase p c = (toLowerChar p = toLowerChar c)"

fun startsWithCI :: "string \<Rightarrow> string \<Rightarrow> bool" where
  "startsWithCI [] s = True"
| "startsWithCI (p # ps) [] = False"
| "startsWithCI (p # ps) (c # cs) = (eqIgnoreCase p c \<and> startsWithCI ps cs)"

definition endsWithCI :: "string \<Rightarrow> string \<Rightarrow> bool" where
  "endsWithCI suf s =
     (length suf \<le> length s \<and> startsWithCI suf (drop (length s - length suf) s))"

text \<open>\<open>[A-Z]\<close> and \<open>[A-Z0-9]\<close> under the flag \<open>i\<close>.\<close>

definition isLetter :: "char \<Rightarrow> bool" where
  "isLetter c = (c \<in> set (take 26 upperChars) \<or> c \<in> set (take 26 lowerChars))"

definition isDigit :: "char \<Rightarrow> bool" where
  "isDigit c = (c \<in> set ''0123456789'')"

definition isAlnum :: "char \<Rightarrow> bool" where
  "isAlnum c = (isLetter c \<or> isDigit c)"

section \<open>Owner extraction\<close>

text \<open>
  \<^verbatim>\<open>const match = filename.match(/CLIENT\s*([^-|_]+?)\s*CLIENT-ID/i)\<close>

  The matcher below follows the backtracking order of the expression. \<open>wsThen k\<close> is a
  greedy \<open>\s*\<close> followed by the rest \<open>k\<close> of the pattern: it first consumes a white-space
  character and gives it back when the rest fails. \<open>nameThen acc\<close> is the lazy group
  \<open>([^-|_]+?)\<close> followed by \<open>\s*CLIENT-ID\<close>: it consumes one character of the class, tries
  the rest of the pattern, and only consumes another character when that fails; \<open>acc\<close> is
  the text captured so far. \<open>findMatch\<close> tries the start positions from left to right and
  returns the capture of the first match.
\<close>

definition nameChar :: "char \<Rightarrow> bool" where
  "nameChar c = (c \<notin> set ''-|_'')"

fun wsThen :: "(string \<Rightarrow> 'a option) \<Rightarrow> string \<Rightarrow> 'a option" where
  "wsThen k [] = k []"
| "wsThen k (c # cs) =
     (if isWhiteSpace c
      then (case wsThen k cs of Some r \<Rightarrow> Some r | None \<Rightarrow> k (c # cs))
      else k (c # cs))"

definition clientIdHere :: "string \<Rightarrow> unit option" where
  "clientIdHere s = (if startsWithCI ''CLIENT-ID'' s then Some () else None)"

fun nameThen :: "string \<Rightarrow> string \<Rightarrow> string option" where
  "nameThen acc [] = None"
| "nameThen acc (c # cs) =
     (if nameChar c
      then (if wsThen clientIdHere cs \<noteq> None then Some (acc @ [c])
            else nameThen (acc @ [c]) cs)
      else None)"

definition matchHere :: "string \<Rightarrow> string option" where
  "matchHere s = (if startsWithCI ''CLIENT'' s then wsThen (nameThen []) (drop 6 s) else None)"

fun findMatch :: "string \<Rightarrow> string option" where
  "findMatch [] = matchHere []"
| "findMatch (c # cs) =
     (case matchHere (c # cs) of Some g \<Rightarrow> Some g | None \<Rightarrow> findMatch cs)"

text \<open>\<open>s.replace(/_/g, ' ')\<close> and \<open>s.replace(/-/g, ' ')\<close>.\<close>

definition replaceChar :: "char \<Rightarrow> char \<Rightarrow> string \<Rightarrow> string" where
  "replaceChar a b s = map (\<lambda>c. if c = a then b else c) s"

text \<open>
  \<^verbatim>\<open>filename.replace(/\.(xlsx|csv)$/i, '')\<close>: the expression is anchored at the end of the
  name, so it removes a final \<open>.xlsx\<close> or \<open>.csv\<close>, in any case, and nothing else.
\<close>

definition stripExtension :: "string \<Rightarrow> string" where
  "stripExtension s =
     (if endsWithCI ''.xlsx'' s then take (length s - 5) s
      else if endsWithCI ''.csv'' s then take (length s - 4) s
      else s)"

definition extractOwnerFromFilename :: "string \<Rightarrow> string" where
  "extractOwnerFromFilename filename =
     (case findMatch filename of
        Some g \<Rightarrow> replaceChar (CHR ''-'') (CHR '' '') (replaceChar (CHR ''_'') (CHR '' '') (trim g))
      | None \<Rightarrow> stripExtension filename)"

section \<open>Numbers\<close>

text \<open>
  A number of the program is an IEEE 754 double. \<open>Fin x\<close> is the finite double of value
  \<open>x\<close>; the two zeros are both \<open>Fin 0\<close> (the program never divides and never prints a
  sign of zero, and \<open>-0 === 0\<close>). Arithmetic rounds its exact result to the nearest double,
  ties to the even significand, as the \<open>+\<close> and \<open>-\<close> of the language do.
\<close>

datatype number = NaN | PosInf | NegInf | Fin rat

fun bitLength :: "nat \<Rightarrow> nat" where
  "bitLength n = (if n = 0 then 0 else Suc (bitLength (n div 2)))"

declare bitLength.simps [simp del]

definition pow2 :: "int \<Rightarrow> rat" where
  "pow2 e = (if 0 \<le> e then 2 ^ nat e else 1 / 2 ^ nat (- e))"

text \<open>For \<open>0 < x\<close>, \<open>floorLog2 x\<close> is the integer \<open>k\<close> with \<open>2^k \<le> x < 2^(k+1)\<close>.\<close>

definition floorLog2 :: "rat \<Rightarrow> int" where
  "floorLog2 x =
     (if 1 \<le> x then int (bitLength (nat \<lfloor>x\<rfloor>)) - 1
      else (let y = 1 / x; k = int (bitLength (nat \<lfloor>y\<rfloor>)) - 1
            in if y = 2 ^ nat k then - k else - k - 1))"

definition roundHalfEven :: "rat \<Rightarrow> int" where
  "roundHalfEven q =
     (let f = \<lfloor>q\<rfloor>; d = q - of_int f
      in if d < 1 / 2 then f else if 1 / 2 < d then f + 1 else if even f then f else f + 1)"

text \<open>
  Rounding to double precision: 53 significant bits, the least exponent of a unit in the
  last place is \<open>-1074\<close>, and a rounded magnitude of \<open>2^1024\<close> or more is an infinity.
\<close>

definition roundDouble :: "rat \<Rightarrow> number" where
  "roundDouble x =
     (if x = 0 then Fin 0
      else (let e = max (floorLog2 \<bar>x\<bar> - 52) (- 1074);
                m = roundHalfEven (\<bar>x\<bar> / pow2 e);
                v = of_int m * pow2 e
            in if 2 ^ 1024 \<le> v then (if 0 < x then PosInf else NegInf)
               else Fin (if 0 < x then v else - v)))"

text \<open>\<open>plusN a b\<close> is \<open>a + b\<close> on two numbers, \<open>minusN a b\<close> is \<open>a - b\<close>.\<close>

fun plusN :: "number \<Rightarrow> number \<Rightarrow> number" where
  "plusN (Fin a) (Fin b) = roundDouble (a + b)"
| "plusN NaN _ = NaN"
| "plusN _ NaN = NaN"
| "plusN PosInf NegInf = NaN"
| "plusN NegInf PosInf = NaN"
| "plusN PosInf _ = PosInf"
| "plusN _ PosInf = PosInf"
| "plusN NegInf _ = NegInf"
| "plusN _ NegInf = NegInf"

fun negN :: "number \<Rightarrow> number" where
  "negN NaN = NaN"
| "negN PosInf = NegInf"
| "negN NegInf = PosInf"
| "negN (Fin a) = Fin (- a)"

definition minusN :: "number \<Rightarrow> number \<Rightarrow> number" where
  "minusN a b = plusN a (negN b)"

text \<open>\<open>n || 0\<close> on a number: \<open>NaN\<close> and zero are falsy.\<close>

definition orZero :: "number \<Rightarrow> number" where
  "orZero n = (if n = NaN \<or> n = Fin 0 then Fin 0 else n)"

section \<open>Sheets and the runtime\<close>

text \<open>
  \<^verbatim>\<open>const rawData = XLSX.utils.sheet_to_json(worksheet, { header: 1 }) as unknown[][]\<close>

  A sheet is a list of rows, a row a list of cells. A cell is a string, a number, a boolean,
  or missing (\<open>undefined\<close> or \<open>null\<close>, which the program never tells apart). A row is
  always an array, so the test \<open>!row\<close> of the source is never true.
\<close>

datatype cell = Undefined | Text string | Num number | Bool bool

type_synonym row = "cell list"
type_synonym sheet = "row list"

text \<open>
  Three functions of the language's library are parameters of the model, since ECMAScript
  leaves a part of each to the implementation: \<open>String\<close> applied to a number (the digits of
  a number that is not an integer), \<open>parseFloat\<close> (the rounding of long literals) and
  \<open>String.prototype.localeCompare\<close> (the collation of the host's locale). Every theorem
  below holds for every choice of the three.
\<close>

record runtime =
  numberToString :: "number \<Rightarrow> string"
  parseFloat :: "string \<Rightarrow> number"
  localeCompare :: "string \<Rightarrow> string \<Rightarrow> number"

fun truthy :: "cell \<Rightarrow> bool" where
  "truthy Undefined = False"
| "truthy (Text s) = (s \<noteq> [])"
| "truthy (Num n) = (n \<noteq> NaN \<and> n \<noteq> Fin 0)"
| "truthy (Bool b) = b"

fun toStringJS :: "runtime \<Rightarrow> cell \<Rightarrow> string" where
  "toStringJS rt Undefined = ''undefined''"
| "toStringJS rt (Text s) = s"
| "toStringJS rt (Num n) = numberToString rt n"
| "toStringJS rt (Bool b) = (if b then ''true'' else ''false'')"

text \<open>\<open>stringOr rt v d\<close> is \<open>String(v || d)\<close> for a string literal \<open>d\<close>.\<close>

definition stringOr :: "runtime \<Rightarrow> cell \<Rightarrow> string \<Rightarrow> string" where
  "stringOr rt v d = (if truthy v then toStringJS rt v else d)"

fun isNumber :: "cell \<Rightarrow> bool" where
  "isNumber (Num n) = True"
| "isNumber _ = False"

text \<open>\<open>cellAt r j\<close> is \<open>row[j]\<close>: reading past the end of an array gives \<open>undefined\<close>.\<close>

definition cellAt :: "row \<Rightarrow> nat \<Rightarrow> cell" where
  "cellAt r j = (if j < length r then r ! j else Undefined)"

section \<open>Format detection\<close>

text \<open>
  The three local variables of the detection loop (lines 209 to 246 of the component):
  \<^verbatim>\<open>let dataStartRow = -1; let companyColIndex = 1; let totalColIndex = 9\<close>
\<close>

record detection =
  dataStartRow :: int
  companyColIndex :: nat
  totalColIndex :: nat

definition initialDetection :: detection where
  "initialDetection = \<lparr>dataStartRow = - 1, companyColIndex = 1, totalColIndex = 9\<rparr>"

text \<open>\<^verbatim>\<open>/^INE[A-Z0-9]+$/i.test(firstCell) || /^[A-Z]{2}[A-Z0-9]+$/i.test(firstCell)\<close>\<close>

definition ineCode :: "string \<Rightarrow> bool" where
  "ineCode s = (startsWithCI ''INE'' s \<and> drop 3 s \<noteq> [] \<and> list_all isAlnum (drop 3 s))"

fun genericCode :: "string \<Rightarrow> bool" where
  "genericCode (a # b # c # cs) = (isLetter a \<and> isLetter b \<and> list_all isAlnum (c # cs))"
| "genericCode _ = False"

definition firstCell :: "runtime \<Rightarrow> row \<Rightarrow> string" where
  "firstCell rt r = trim (stringOr rt (cellAt r 0) [])"

definition hasISIN :: "runtime \<Rightarrow> row \<Rightarrow> bool" where
  "hasISIN rt r = (ineCode (firstCell rt r) \<or> genericCode (firstCell rt r))"

definition hasNumericData :: "row \<Rightarrow> bool" where
  "hasNumericData r = (10 \<le> length r \<and> isNumber (cellAt r 2) \<and> isNumber (cellAt r 9))"

definition isCompanyHeader :: "string \<Rightarrow> bool" where
  "isCompanyHeader cellValue =
     (includesStr cellValue ''company'' \<or> includesStr cellValue ''scrip''
      \<or> includesStr cellValue ''name of security'' \<or> includesStr cellValue ''security name'')"

definition isTotalHeader :: "string \<Rightarrow> bool" where
  "isTotalHeader cellValue =
     (cellValue = ''total'' \<or> cellValue = ''free'' \<or> includesStr cellValue ''total qty''
      \<or> includesStr cellValue ''quantity'' \<or> includesStr cellValue ''holding'')"

definition cellValueOf :: "runtime \<Rightarrow> cell \<Rightarrow> string" where
  "cellValueOf rt c = trim (toLowerCase (stringOr rt c []))"

text \<open>The body of the inner loop at row \<open>i\<close>, column \<open>j\<close>.\<close>

definition headerCell :: "runtime \<Rightarrow> nat \<Rightarrow> nat \<Rightarrow> cell \<Rightarrow> detection \<Rightarrow> detection" where
  "headerCell rt i j c st =
     (let st1 = (if isCompanyHeader (cellValueOf rt c)
                 then st\<lparr>companyColIndex := j, dataStartRow := int i + 1\<rparr> else st)
      in if isTotalHeader (cellValueOf rt c) then st1\<lparr>totalColIndex := j\<rparr> else st1)"

text \<open>The inner loop \<open>for (let j = 0; j < row.length; j++)\<close>, from column \<open>j\<close> on.\<close>

fun headerScan :: "runtime \<Rightarrow> nat \<Rightarrow> nat \<Rightarrow> row \<Rightarrow> detection \<Rightarrow> detection" where
  "headerScan rt i j [] st = st"
| "headerScan rt i j (c # cs) st = headerScan rt i (Suc j) cs (headerCell rt i j c st)"

text \<open>
  The outer loop, from row \<open>i\<close> on: a row of fewer than three cells is passed over
  (\<open>continue\<close>), a row that looks like data ends the loop (\<open>break\<close>), any other row goes
  through the header scan.
\<close>

fun scanRows :: "runtime \<Rightarrow> nat \<Rightarrow> sheet \<Rightarrow> detection \<Rightarrow> detection" where
  "scanRows rt i [] st = st"
| "scanRows rt i (r # rs) st =
     (if length r < 3 then scanRows rt (Suc i) rs st
      else if hasISIN rt r \<or> hasNumericData r then st\<lparr>dataStartRow := int i\<rparr>
      else scanRows rt (Suc i) rs (headerScan rt i 0 r st))"

text \<open>
  The loop runs over \<open>i < Math.min(15, rawData.length)\<close>, that is over \<open>take 15 rawData\<close>;
  a start row still negative after it becomes 5.
\<close>

definition detect :: "runtime \<Rightarrow> sheet \<Rightarrow> detection" where
  "detect rt rawData =
     (let st = scanRows rt 0 (take 15 rawData) initialDetection
      in if dataStartRow st < 0 then st\<lparr>dataStartRow := 5\<rparr> else st)"

text \<open>
  For the comparison with \<open>scanRows\<close>: \<open>longRows i rs\<close> are the rows of \<open>rs\<close> that have
  at least three cells, each with its index in the sheet when \<open>rs\<close> starts at row \<open>i\<close>;
  \<open>scanLongRows\<close> is the outer loop without its first statement, run over such rows.
\<close>

definition longRows :: "nat \<Rightarrow> sheet \<Rightarrow> (nat \<times> row) list" where
  "longRows i rs = filter (\<lambda>p. 3 \<le> length (snd p)) (List.enumerate i rs)"

fun scanLongRows :: "runtime \<Rightarrow> (nat \<times> row) list \<Rightarrow> detection \<Rightarrow> detection" where
  "scanLongRows rt [] st = st"
| "scanLongRows rt (p # ps) st =
     (if hasISIN rt (snd p) \<or> hasNumericData (snd p) then st\<lparr>dataStartRow := int (fst p)\<rparr>
      else scanLongRows rt ps (headerScan rt (fst p) 0 (snd p) st))"

section \<open>Record extraction\<close>

record HoldingData =
  companyName :: string
  total :: number
  ownerName :: string

text \<open>\<^verbatim>\<open>String(totalValue || '0').replace(/,/g, '')\<close>\<close>

definition removeCommas :: "string \<Rightarrow> string" where
  "removeCommas s = filter (\<lambda>c. c \<noteq> CHR '','') s"

text \<open>
  \<^verbatim>\<open>typeof totalValue === 'number' ? totalValue
     : parseFloat(String(totalValue || '0').replace(/,/g, '')) || 0\<close>
\<close>

fun quantityOf :: "runtime \<Rightarrow> cell \<Rightarrow> number" where
  "quantityOf rt (Num n) = n"
| "quantityOf rt v = orZero (parseFloat rt (removeCommas (stringOr rt v ''0'')))"

definition isNoise :: "string \<Rightarrow> bool" where
  "isNoise lowerName =
     (includesStr lowerName ''total'' \<or> includesStr lowerName ''grand''
      \<or> includesStr lowerName ''summary'')"

text \<open>\<^verbatim>\<open>const companyName = String(row[companyColIndex] || '').trim()\<close>\<close>

definition companyNameOf :: "runtime \<Rightarrow> detection \<Rightarrow> row \<Rightarrow> string" where
  "companyNameOf rt d r = trim (stringOr rt (cellAt r (companyColIndex d)) [])"

text \<open>
  The body of the loop over the data rows (lines 255 to 277): \<open>None\<close> is a row passed over,
  \<open>Some h\<close> the record pushed to \<open>newData\<close>.
\<close>

definition processRow :: "runtime \<Rightarrow> detection \<Rightarrow> string \<Rightarrow> row \<Rightarrow> HoldingData option" where
  "processRow rt d owner r =
     (if length r \<le> max (companyColIndex d) (totalColIndex d) then None
      else (let name = companyNameOf rt d r;
                qty = quantityOf rt (cellAt r (totalColIndex d))
            in if isNoise (toLowerCase name) then None
               else if name \<noteq> [] \<and> 1 < length name \<and> qty \<noteq> Fin 0
                    then Some \<lparr>companyName = name, total = qty, ownerName = owner\<rparr>
                    else None))"

text \<open>\<open>xs.slice(k)\<close>: a negative start counts from the end.\<close>

definition sliceFrom :: "int \<Rightarrow> 'a list \<Rightarrow> 'a list" where
  "sliceFrom k xs = (if 0 \<le> k then drop (nat k) xs else drop (nat (int (length xs) + k)) xs)"

definition extractRecords :: "runtime \<Rightarrow> detection \<Rightarrow> string \<Rightarrow> sheet \<Rightarrow> HoldingData list" where
  "extractRecords rt d owner rawData =
     List.map_filter (processRow rt d owner) (sliceFrom (dataStartRow d) rawData)"

section \<open>The pivot table\<close>

text \<open>
  \<^verbatim>\<open>interface PivotData { [companyName: string]: { [ownerName: string]: number; 'Total Holdings': number } }\<close>

  An object is modelled by the list of its own properties in the order of their creation:
  \<open>map_of obj k\<close> reads \<open>obj[k]\<close> (\<open>None\<close> is \<open>undefined\<close>) and \<open>setProp k v obj\<close> is the
  assignment \<open>obj[k] = v\<close>, which keeps the place of a key that exists and puts a new key
  last.

  A read \<open>obj[k]\<close> of the source also finds the properties that \<open>obj\<close> inherits from
  \<open>Object.prototype\<close>; \<open>map_of\<close> finds the own properties only. The two agree on
  every key that is no property name of \<open>Object.prototype\<close>: these are the plain keys.
  For a company or an owner whose name is not plain (\<open>constructor\<close>, \<open>toString\<close>,
  \<open>__proto__\<close>, ...) the source reads a function or the prototype itself where the
  model reads \<open>undefined\<close>, and the model does not describe the program. Every theorem
  about tables therefore assumes plain records.
\<close>

definition objectPrototypeKeys :: "string list" where
  "objectPrototypeKeys =
     [''constructor'', ''__defineGetter__'', ''__defineSetter__'', ''hasOwnProperty'',
      ''__lookupGetter__'', ''__lookupSetter__'', ''isPrototypeOf'', ''propertyIsEnumerable'',
      ''toString'', ''valueOf'', ''__proto__'', ''toLocaleString'']"

definition plainKey :: "string \<Rightarrow> bool" where
  "plainKey k = (k \<notin> set objectPrototypeKeys)"

definition plainRecord :: "HoldingData \<Rightarrow> bool" where
  "plainRecord h = (plainKey (companyName h) \<and> plainKey (ownerName h))"

type_synonym pivotRow = "(string \<times> number) list"
type_synonym PivotData = "(string \<times> pivotRow) list"

fun setProp :: "'k \<Rightarrow> 'v \<Rightarrow> ('k \<times> 'v) list \<Rightarrow> ('k \<times> 'v) list" where
  "setProp k v [] = [(k, v)]"
| "setProp k v ((k', v') # kvs) =
     (if k' = k then (k, v) # kvs else (k', v') # setProp k v kvs)"

definition totalHoldings :: string where
  "totalHoldings = ''Total Holdings''"

text \<open>
  The callback of \<open>combinedData.forEach\<close> (lines 301 to 308):
  \<^verbatim>\<open>
  if (!pivot[item.companyName]) { pivot[item.companyName] = { 'Total Holdings': 0 } }
  pivot[item.companyName][item.ownerName] =
    (pivot[item.companyName][item.ownerName] || 0) + item.total
  pivot[item.companyName]['Total Holdings'] += item.total
  \<close>
  \<open>addToRow\<close> is the second and the third statement on the row of the company. The
  third statement reads the row after the second has written it; a missing
  \<open>Total Holdings\<close> would read as \<open>undefined\<close>, and \<open>undefined + item.total\<close> is \<open>NaN\<close>.
\<close>

definition addToRow :: "pivotRow \<Rightarrow> HoldingData \<Rightarrow> pivotRow" where
  "addToRow r0 item =
     (let r1 = setProp (ownerName item)
                 (plusN (case map_of r0 (ownerName item) of Some v \<Rightarrow> orZero v | None \<Rightarrow> Fin 0)
                        (total item)) r0
      in setProp totalHoldings
           (plusN (case map_of r1 totalHoldings of Some v \<Rightarrow> v | None \<Rightarrow> NaN)
                  (total item)) r1)"

definition addToPivot :: "PivotData \<Rightarrow> HoldingData \<Rightarrow> PivotData" where
  "addToPivot pivot item =
     (let pivot1 = (case map_of pivot (companyName item) of
                      None \<Rightarrow> setProp (companyName item) [(totalHoldings, Fin 0)] pivot
                    | Some r \<Rightarrow> pivot);
          r0 = (case map_of pivot1 (companyName item) of Some r \<Rightarrow> r | None \<Rightarrow> [])
      in setProp (companyName item) (addToRow r0 item) pivot1)"

text \<open>\<^verbatim>\<open>const pivot: PivotData = {}; combinedData.forEach(item => ...)\<close>\<close>

definition buildPivot :: "HoldingData list \<Rightarrow> PivotData" where
  "buildPivot combinedData = foldl addToPivot [] combinedData"

subsection \<open>The invariant of the table and the equality of tables\<close>

text \<open>
  The owner entries of a row are its entries under a key other than \<open>Total Holdings\<close>.
  \<open>totalMatchesOwners r\<close> says that the total of the row is a finite number, that every
  owner value is finite, and that the total is the sum of the owner values, computed
  without rounding.
\<close>

fun isFinite :: "number \<Rightarrow> bool" where
  "isFinite (Fin x) = True"
| "isFinite _ = False"

fun finOf :: "number \<Rightarrow> rat" where
  "finOf (Fin x) = x"
| "finOf _ = 0"

definition ownerEntries :: "pivotRow \<Rightarrow> pivotRow" where
  "ownerEntries r = filter (\<lambda>e. fst e \<noteq> totalHoldings) r"

definition ownerSum :: "pivotRow \<Rightarrow> rat" where
  "ownerSum r = sum_list (map (\<lambda>e. finOf (snd e)) (ownerEntries r))"

definition totalMatchesOwners :: "pivotRow \<Rightarrow> bool" where
  "totalMatchesOwners r =
     (case map_of r totalHoldings of
        Some (Fin t) \<Rightarrow> list_all (\<lambda>e. isFinite (snd e)) (ownerEntries r) \<and> t = ownerSum r
      | _ \<Rightarrow> False)"

definition pivotInvariant :: "PivotData \<Rightarrow> bool" where
  "pivotInvariant pivot = list_all (\<lambda>e. totalMatchesOwners (snd e)) pivot"

text \<open>
  Two tables are the same when they have the same company keys and, for every company,
  rows with the same keys and the same value under every key. The order of the keys is
  not compared.
\<close>

definition sameKeys :: "('k \<times> 'v) list \<Rightarrow> ('k \<times> 'v) list \<Rightarrow> bool" where
  "sameKeys xs ys = (set (map fst xs) = set (map fst ys))"

definition sameTable :: "PivotData \<Rightarrow> PivotData \<Rightarrow> bool" where
  "sameTable p p' =
     (sameKeys p p' \<and>
      (\<forall>c \<in> set (map fst p).
         case (map_of p c, map_of p' c) of
           (Some r, Some r') \<Rightarrow> sameKeys r r' \<and> (\<forall>k \<in> set (map fst r). map_of r k = map_of r' k)
         | _ \<Rightarrow> False))"

text \<open>
  A record has a whole quantity when its \<open>total\<close> is an integer; \<open>wholeQuantity\<close> is
  that integer.
\<close>

fun intOf :: "number \<Rightarrow> int" where
  "intOf (Fin x) = \<lfloor>x\<rfloor>"
| "intOf _ = 0"

definition wholeQuantity :: "HoldingData \<Rightarrow> int" where
  "wholeQuantity h = intOf (total h)"

definition isWhole :: "HoldingData \<Rightarrow> bool" where
  "isWhole h = (total h = Fin (of_int (wholeQuantity h)))"

text \<open>\<open>magnitude hs\<close> is the sum of the absolute values of the quantities of \<open>hs\<close>.\<close>

definition magnitude :: "HoldingData list \<Rightarrow> int" where
  "magnitude hs = (\<Sum>h\<leftarrow>hs. \<bar>wholeQuantity h\<bar>)"

text \<open>
  The row of a company is built from the records of that company alone: \<open>companyRow hs\<close>
  is the row that the callback makes of the records \<open>hs\<close>, starting from the fresh row
  \<open>{ 'Total Holdings': 0 }\<close>. For whole quantities added without rounding, the value it
  holds under the key \<open>k\<close> is \<open>cellSum hs k\<close>: the quantities of the owner \<open>k\<close>, and
  under \<open>Total Holdings\<close> the quantities of all records as well.
\<close>

definition recordsOf :: "string \<Rightarrow> HoldingData list \<Rightarrow> HoldingData list" where
  "recordsOf c rs = filter (\<lambda>h. companyName h = c) rs"

definition companyRow :: "HoldingData list \<Rightarrow> pivotRow" where
  "companyRow hs = foldl addToRow [(totalHoldings, Fin 0)] hs"

definition cellSum :: "HoldingData list \<Rightarrow> string \<Rightarrow> int" where
  "cellSum hs k =
     (\<Sum>h\<leftarrow>filter (\<lambda>h. ownerName h = k) hs. wholeQuantity h)
     + (if k = totalHoldings then (\<Sum>h\<leftarrow>hs. wholeQuantity h) else 0)"

subsection \<open>The state of the component\<close>

datatype alertType = AlertSuccess | AlertError | AlertWarning | AlertInfo

record appState =
  allData :: "HoldingData list"
  pivotData :: "PivotData option"
  alerts :: "(alertType \<times> string) list"

definition initialState :: appState where
  "initialState = \<lparr>allData = [], pivotData = None, alerts = []\<rparr>"

fun showNat :: "nat \<Rightarrow> string" where
  "showNat n =
     (if n < 10 then [''0123456789'' ! n] else showNat (n div 10) @ [''0123456789'' ! (n mod 10)])"

declare showNat.simps [simp del]

text \<open>
  One uploaded file: its name and what reading it gave, the text of the exception thrown
  by the reader or the first sheet as rows. The result is what the file adds to
  \<open>newData\<close> and the alerts it raises (lines 193 to 290).
\<close>

definition processFile ::
  "runtime \<Rightarrow> string \<times> (string + sheet) \<Rightarrow> HoldingData list \<times> (alertType \<times> string) list" where
  "processFile rt file =
     (case snd file of
        Inl err \<Rightarrow> ([], [(AlertError, ''Error processing '' @ fst file @ '': '' @ err)])
      | Inr rawData \<Rightarrow>
          (let found = extractRecords rt (detect rt rawData)
                         (extractOwnerFromFilename (fst file)) rawData
           in (found,
               if found = []
               then [(AlertWarning,
                      ''No holding data found in '' @ fst file @ ''. Check file format.'')]
               else [])))"

text \<open>
  The end of \<open>processFiles\<close> (lines 292 to 316), for the records \<open>newData\<close> of one upload
  of \<open>n\<close> files: the records join \<open>allData\<close>, and the pivot table is built again from all
  records seen so far.
\<close>

definition foldRecords :: "nat \<Rightarrow> appState \<Rightarrow> HoldingData list \<Rightarrow> appState" where
  "foldRecords n st newData =
     (if newData \<noteq> [] \<or> allData st \<noteq> []
      then st\<lparr>allData := allData st @ newData,
              pivotData := Some (buildPivot (allData st @ newData)),
              alerts := alerts st @
                (if newData \<noteq> []
                 then [(AlertSuccess, showNat n @ '' file(s) processed - found '' @
                          showNat (length newData) @ '' holdings!'')]
                 else [])\<rparr>
      else st\<lparr>allData := allData st @ newData,
              alerts := alerts st @
                [(AlertWarning, ''No holding data could be extracted from the uploaded files.'')]\<rparr>)"

definition processFiles :: "runtime \<Rightarrow> appState \<Rightarrow> (string \<times> (string + sheet)) list \<Rightarrow> appState" where
  "processFiles rt st uploadedFiles =
     (let results = map (processFile rt) uploadedFiles
      in foldRecords (length uploadedFiles)
           (st\<lparr>alerts := alerts st @ concat (map snd results)\<rparr>)
           (concat (map fst results)))"

text \<open>
  A session of uploads, from the empty state: each upload is the number of its files and
  the records extracted from them.
\<close>

definition foldUploads :: "(nat \<times> HoldingData list) list \<Rightarrow> appState" where
  "foldUploads uploads = foldl (\<lambda>st u. foldRecords (fst u) st (snd u)) initialState uploads"

section \<open>Sorting\<close>

text \<open>
  \<open>Object.entries\<close> lists the keys that are array indices first, in ascending numeric
  order, and then the other keys in the order of their creation. An array index is the
  decimal form, without leading zeros, of an integer below \<open>2^32 - 1\<close>.
\<close>

definition digitValue :: "char \<Rightarrow> nat" where
  "digitValue c =
     (case map_of (zip ''0123456789'' [0, 1, 2, 3, 4, 5, 6, 7, 8, 9]) c of
        Some d \<Rightarrow> d | None \<Rightarrow> 0)"

definition decimalValue :: "string \<Rightarrow> nat" where
  "decimalValue s = foldl (\<lambda>n c. 10 * n + digitValue c) 0 s"

definition isArrayIndex :: "string \<Rightarrow> bool" where
  "isArrayIndex s =
     (s \<noteq> [] \<and> list_all isDigit s \<and> (s = ''0'' \<or> hd s \<noteq> CHR ''0'')
      \<and> length s \<le> 10 \<and> decimalValue s < 2 ^ 32 - 1)"

definition objectEntries :: "(string \<times> 'v) list \<Rightarrow> (string \<times> 'v) list" where
  "objectEntries obj =
     sort_key (\<lambda>e. decimalValue (fst e)) (filter (\<lambda>e. isArrayIndex (fst e)) obj)
     @ filter (\<lambda>e. \<not> isArrayIndex (fst e)) obj"

text \<open>
  \<open>Array.prototype.sort\<close> with a comparison function is stable: \<open>b\<close> moves before \<open>a\<close>
  only when the comparison of \<open>a\<close> and \<open>b\<close> is positive; a result of \<open>NaN\<close> counts as
  zero. For a comparison function that orders the elements consistently the result of
  the sort is fixed by this, and \<open>sortBy\<close> computes it by insertion. A comparison that
  is not consistent (a \<open>NaN\<close> among the values compared) leaves the order to the engine;
  there \<open>sortBy\<close> is one of the orders the language allows, not the engine's.
\<close>

fun isPositive :: "number \<Rightarrow> bool" where
  "isPositive (Fin x) = (0 < x)"
| "isPositive PosInf = True"
| "isPositive _ = False"

fun insertBy :: "('a \<Rightarrow> 'a \<Rightarrow> number) \<Rightarrow> 'a \<Rightarrow> 'a list \<Rightarrow> 'a list" where
  "insertBy cmp x [] = [x]"
| "insertBy cmp x (y # ys) =
     (if isPositive (cmp x y) then y # insertBy cmp x ys else x # y # ys)"

definition sortBy :: "('a \<Rightarrow> 'a \<Rightarrow> number) \<Rightarrow> 'a list \<Rightarrow> 'a list" where
  "sortBy cmp xs = foldr (insertBy cmp) xs []"

datatype direction = Asc | Desc

text \<open>
  The value a row is sorted by, for a column that is not \<open>Company Name\<close>:
  \<open>a[1]['Total Holdings']\<close>, where a missing value enters the subtraction as \<open>NaN\<close>, or
  \<open>a[1][sortColumn] || 0\<close>.
\<close>

definition sortValue :: "string \<Rightarrow> pivotRow \<Rightarrow> number" where
  "sortValue sortColumn r =
     (if sortColumn = totalHoldings
      then (case map_of r totalHoldings of Some v \<Rightarrow> v | None \<Rightarrow> NaN)
      else (case map_of r sortColumn of Some v \<Rightarrow> orZero v | None \<Rightarrow> Fin 0))"

definition compareEntries ::
  "runtime \<Rightarrow> string \<Rightarrow> direction \<Rightarrow> string \<times> pivotRow \<Rightarrow> string \<times> pivotRow \<Rightarrow> number" where
  "compareEntries rt sortColumn sortDirection a b =
     (if sortColumn = ''Company Name''
      then (if sortDirection = Asc then localeCompare rt (fst a) (fst b)
            else localeCompare rt (fst b) (fst a))
      else (if sortDirection = Asc
            then minusN (sortValue sortColumn (snd a)) (sortValue sortColumn (snd b))
            else minusN (sortValue sortColumn (snd b)) (sortValue sortColumn (snd a))))"

text \<open>
  \<open>getSortedEntries\<close> reads the state variables \<open>sortColumn\<close> (\<open>None\<close> is \<open>null\<close>) and
  \<open>sortDirection\<close>. The test \<open>!sortColumn\<close> holds for \<open>null\<close> and for the empty string.
  The function sorts the array that \<open>Object.entries\<close> has just made and assigns nothing
  to \<open>data\<close> or to its rows, so the table it is given is the table after the call.
\<close>

definition getSortedEntries ::
  "runtime \<Rightarrow> string option \<Rightarrow> direction \<Rightarrow> PivotData \<Rightarrow> (string \<times> pivotRow) list" where
  "getSortedEntries rt sortColumn sortDirection data =
     (case sortColumn of
        None \<Rightarrow> objectEntries data
      | Some col \<Rightarrow>
          (if col = [] then objectEntries data
           else sortBy (compareEntries rt col sortDirection) (objectEntries data)))"

section \<open>A runtime for examples\<close>

text \<open>
  \<open>sampleRuntime\<close> instantiates the three library functions for the evaluation of
  examples. Its \<open>String\<close> is the language's on \<open>NaN\<close>, the infinities and the integers
  below \<open>10^21\<close>, which are printed in decimal. Its \<open>parseFloat\<close> skips leading white
  space and reads the longest prefix that is an optionally signed \<open>Infinity\<close> or decimal
  literal (digits, an optional fraction, an optional exponent), rounded to a double, and
  gives \<open>NaN\<close> when there is none. Its \<open>localeCompare\<close> orders by code units.
\<close>

fun sampleNumberToString :: "number \<Rightarrow> string" where
  "sampleNumberToString NaN = ''NaN''"
| "sampleNumberToString PosInf = ''Infinity''"
| "sampleNumberToString NegInf = ''-Infinity''"
| "sampleNumberToString (Fin x) = (if x < 0 then ''-'' else []) @ showNat (nat \<lfloor>\<bar>x\<bar>\<rfloor>)"

definition pow10 :: "int \<Rightarrow> rat" where
  "pow10 e = (if 0 \<le> e then 10 ^ nat e else 1 / 10 ^ nat (- e))"

text \<open>The exponent part of a literal: \<open>e\<close> or \<open>E\<close>, an optional sign, at least one digit.\<close>

definition exponentPart :: "string \<Rightarrow> int" where
  "exponentPart s =
     (case s of
        [] \<Rightarrow> 0
      | c # cs \<Rightarrow>
          (if c = CHR ''e'' \<or> c = CHR ''E''
           then (case cs of
                   [] \<Rightarrow> 0
                 | d # ds \<Rightarrow>
                     (if d = CHR ''-'' then - int (decimalValue (takeWhile isDigit ds))
                      else if d = CHR ''+'' then int (decimalValue (takeWhile isDigit ds))
                      else int (decimalValue (takeWhile isDigit cs))))
           else 0))"

definition unsignedLiteral :: "string \<Rightarrow> number" where
  "unsignedLiteral s =
     (if startsWith ''Infinity'' s then PosInf
      else (let ip = takeWhile isDigit s;
                r1 = dropWhile isDigit s;
                fp = (if startsWith ''.'' r1 then takeWhile isDigit (tl r1) else []);
                r2 = (if startsWith ''.'' r1 then dropWhile isDigit (tl r1) else r1)
            in if ip = [] \<and> fp = [] then NaN
               else roundDouble (of_nat (decimalValue (ip @ fp))
                                 * pow10 (exponentPart r2 - int (length fp)))))"

definition sampleParseFloat :: "string \<Rightarrow> number" where
  "sampleParseFloat s =
     (case dropWhile isWhiteSpace s of
        [] \<Rightarrow> NaN
      | c # cs \<Rightarrow>
          (if c = CHR ''-'' then negN (unsignedLiteral cs)
           else if c = CHR ''+'' then unsignedLiteral cs
           else unsignedLiteral (c # cs)))"

fun compareUnits :: "string \<Rightarrow> string \<Rightarrow> number" where
  "compareUnits [] [] = Fin 0"
| "compareUnits [] (b # bs) = Fin (- 1)"
| "compareUnits (a # as) [] = Fin 1"
| "compareUnits (a # as) (b # bs) =
     (if (of_char a :: nat) < of_char b then Fin (- 1)
      else if (of_char b :: nat) < of_char a then Fin 1
      else compareUnits as bs)"

definition sampleRuntime :: runtime where
  "sampleRuntime =
     \<lparr>numberToString = sampleNumberToString, parseFloat = sampleParseFloat,
      localeCompare = compareUnits\<rparr>"

section \<open>Example inputs\<close>

text \<open>A mapping with the company in the first column and the quantity in the second.\<close>

definition exampleMapping :: detection where
  "exampleMapping = \<lparr>dataStartRow = 0, companyColIndex = 0, totalColIndex = 1\<rparr>"

definition exampleSheet :: sheet where
  "exampleSheet =
     [[Text ''Grand Total'', Num (Fin 100)],
      [Text ''Acme Ltd'', Num (Fin 1250)],
      [Text ''Z'', Num (Fin 3)],
      [Text ''Zeta'', Text ''n/a'']]"

definition acmeRecord :: HoldingData where
  "acmeRecord = \<lparr>companyName = ''Acme Ltd'', total = Fin 1250, ownerName = ''me''\<rparr>"

definition negativeSheet :: sheet where
  "negativeSheet = [[Text ''Acme'', Num (Fin (- 5))], [Text ''Beta'', Text ''-Infinity'']]"

definition plainSheet :: sheet where
  "plainSheet =
     [[Text ''Sr No'', Text ''Name'', Text ''Qty''],
      [Num (Fin 1), Text ''Acme'', Num (Fin 5)]]"

definition dateSheet :: sheet where
  "dateSheet =
     [[Text ''Holdings''],
      [Text ''Date'', Text ''Company'', Text ''Quantity''],
      [Text ''INE009A01021'', Text ''Infosys'', Num (Fin 100)]]"

text \<open>
  A row of two cells with two header keywords, then a header row that names the company
  column only.
\<close>

definition shortHeaderSheet :: sheet where
  "shortHeaderSheet =
     [[Text ''company'', Text ''quantity''], [Text ''Sr No'', Text ''Scrip'', Text ''Units'']]"

text \<open>
  The scenario of the specification: Alice holds 100 of Infosys, Bob 50 of Infosys and 20
  of TCS.
\<close>

definition holding :: "string \<Rightarrow> string \<Rightarrow> rat \<Rightarrow> HoldingData" where
  "holding c w q = \<lparr>companyName = c, total = Fin q, ownerName = w\<rparr>"

definition scenario :: "HoldingData list" where
  "scenario =
     [holding ''Infosys'' ''Alice'' 100, holding ''Infosys'' ''Bob'' 50, holding ''TCS'' ''Bob'' 20]"

definition scenarioTable :: PivotData where
  "scenarioTable =
     [(''Infosys'', [(''Total Holdings'', Fin 150), (''Alice'', Fin 100), (''Bob'', Fin 50)]),
      (''TCS'', [(''Total Holdings'', Fin 20), (''Bob'', Fin 20)])]"

definition scenarioUploads :: "(nat \<times> HoldingData list) list" where
  "scenarioUploads =
     [(1, [holding ''Infosys'' ''Alice'' 100]),
      (1, [holding ''Infosys'' ''Bob'' 50, holding ''TCS'' ''Bob'' 20])]"

text \<open>Three records of one company whose quantities are not added exactly: \<open>2^53\<close>, 1, 1.\<close>

definition roundingRecords :: "HoldingData list" where
  "roundingRecords =
     [holding ''Acme'' ''x'' 9007199254740992, holding ''Acme'' ''y'' 1, holding ''Acme'' ''y'' 1]"

text \<open>
  A workbook with a header row and one holding, 5 of Acme, and the same workbook uploaded
  under the file name \<open>Total Holdings.xlsx\<close>.
\<close>

definition acmeBook :: sheet where
  "acmeBook =
     [[Text ''Sr No'', Text ''Company'', Text ''Quantity''],
      [Text ''INE000A01010'', Text ''Acme'', Num (Fin 5)]]"

definition totalHoldingsUpload :: "(string \<times> (string + sheet)) list" where
  "totalHoldingsUpload = [(''Total Holdings.xlsx'', Inr acmeBook)]"

text \<open>
  Two workbooks of one upload whose records are \<open>roundingRecords\<close>: \<open>x.xlsx\<close> holds
  \<open>2^53\<close> of Acme, \<open>y.xlsx\<close> holds 1 of Acme twice.
\<close>

definition bigBook :: sheet where
  "bigBook =
     [[Text ''Sr No'', Text ''Company'', Text ''Quantity''],
      [Text ''INE000A01010'', Text ''Acme'', Num (Fin 9007199254740992)]]"

definition smallBook :: sheet where
  "smallBook =
     [[Text ''Sr No'', Text ''Company'', Text ''Quantity''],
      [Text ''INE000A01010'', Text ''Acme'', Num (Fin 1)],
      [Text ''INE000A01010'', Text ''Acme'', Num (Fin 1)]]"

definition roundingUpload :: "(string \<times> (string + sheet)) list" where
  "roundingUpload = [(''x.xlsx'', Inr bigBook), (''y.xlsx'', Inr smallBook)]"

section \<open>Owner extraction: the examples of the specification\<close>

text \<open>
  The capture of the expression is a run of characters other than \<open>-\<close>, \<open>|\<close> and \<open>_\<close>,
  so the two replacements that follow the match never find anything to replace.
\<close>

lemma wsThen_SomeD: "wsThen k s = Some r \<Longrightarrow> \<exists>s'. k s' = Some r"
  by (induction s) (auto split: if_splits option.splits)

lemma nameThen_chars:
  "nameThen acc s = Some g \<Longrightarrow> list_all nameChar acc \<Longrightarrow> list_all nameChar g"
  by (induction s arbitrary: acc) (auto split: if_splits)

lemma findMatch_chars: "findMatch s = Some g \<Longrightarrow> list_all nameChar g"
proof (induction s)
  case Nil
  then show ?case
    by (auto simp: matchHere_def split: if_splits dest!: wsThen_SomeD dest: nameThen_chars)
next
  case (Cons c cs)
  then show ?case
    by (auto simp: matchHere_def split: if_splits option.splits
             dest!: wsThen_SomeD dest: nameThen_chars)
qed

lemma replaceChar_absent: "a \<notin> set s \<Longrightarrow> replaceChar a b s = s"
  by (induction s) (auto simp: replaceChar_def)

lemma set_trim_subset: "set (trim s) \<subseteq> set s"
  by (auto simp: trim_def dest!: set_dropWhileD)

lemma extractOwner_match_is_trim:
  assumes "findMatch filename = Some g"
  shows "extractOwnerFromFilename filename = trim g"
proof -
  from assms have "list_all nameChar g" by (rule findMatch_chars)
  then have "CHR ''_'' \<notin> set g" and "CHR ''-'' \<notin> set g"
    by (auto simp: list_all_iff nameChar_def)
  with set_trim_subset[of g] have "CHR ''_'' \<notin> set (trim g)" and "CHR ''-'' \<notin> set (trim g)"
    by auto
  then show ?thesis
    using assms by (simp add: extractOwnerFromFilename_def replaceChar_absent)
qed

text \<open>
  Claim C1. The specification's example \<open>CLIENT John_Doe CLIENT-ID 123.xlsx\<close> has an
  underscore between \<open>CLIENT\<close> and \<open>CLIENT-ID\<close>, which the character class of the capture
  excludes: the expression does not match, and the function falls back to the file name
  without its extension instead of returning \<open>John Doe\<close>. The second example,
  \<open>report.csv\<close>, gives \<open>report\<close>.
\<close>

theorem extractOwner_spec_examples:
  "extractOwnerFromFilename ''CLIENT John_Doe CLIENT-ID 123.xlsx''
     = ''CLIENT John_Doe CLIENT-ID 123''
   \<and> extractOwnerFromFilename ''report.csv'' = ''report''"
  by code_simp

lemma extractOwner_with_space:
  "extractOwnerFromFilename ''CLIENT John Doe CLIENT-ID 123.xlsx'' = ''John Doe''"
  by code_simp

section \<open>Integers up to \<open>2^53\<close> are added without rounding\<close>

lemma bitLength_pos: "0 < n \<Longrightarrow> 0 < bitLength n"
  by (subst bitLength.simps) simp

lemma bitLength_lower: "0 < n \<Longrightarrow> 2 ^ (bitLength n - 1) \<le> n"
proof (induction n rule: bitLength.induct)
  case (1 n)
  show ?case
  proof (cases "n div 2 = 0")
    case True
    with "1.prems" have "n = 1" by presburger
    then show ?thesis
      by (subst bitLength.simps, subst bitLength.simps) simp
  next
    case False
    then have pos: "0 < n div 2" by simp
    from "1.IH"[OF _ pos] "1.prems" have ih: "2 ^ (bitLength (n div 2) - 1) \<le> n div 2"
      by simp
    have "bitLength n = Suc (bitLength (n div 2))"
      using "1.prems" by (subst bitLength.simps) simp
    moreover from bitLength_pos[OF pos] obtain k where k: "bitLength (n div 2) = Suc k"
      by (cases "bitLength (n div 2)") auto
    ultimately show ?thesis using ih by simp
  qed
qed

lemma roundHalfEven_of_int: "roundHalfEven (of_int m) = m"
  by (simp add: roundHalfEven_def)

lemma pow2_nonpos: "e \<le> 0 \<Longrightarrow> pow2 e = 1 / 2 ^ nat (- e)"
  by (cases "e = 0") (simp_all add: pow2_def)

lemma roundDouble_of_int:
  assumes "\<bar>i\<bar> \<le> 2 ^ 53"
  shows "roundDouble (of_int i) = Fin (of_int i)"
proof (cases "i = 0")
  case True
  then show ?thesis by (simp add: roundDouble_def)
next
  case False
  define n where "n = nat \<bar>i\<bar>"
  have npos: "0 < n" and nle: "n \<le> 2 ^ 53"
    using False assms by (auto simp: n_def nat_le_iff)
  have absx: "\<bar>of_int i :: rat\<bar> = of_nat n"
    by (simp add: n_def flip: of_int_abs)
  define b where "b = bitLength n"
  have bpos: "0 < b" using npos by (simp add: b_def bitLength_pos)
  have blow: "2 ^ (b - 1) \<le> n" using bitLength_lower[OF npos] by (simp add: b_def)
  have le53: "(2::nat) ^ (b - 1) \<le> 2 ^ 53" using blow nle by (rule order_trans)
  have "b - 1 \<le> 53" by (rule power_le_imp_le_exp[OF _ le53]) simp
  then have b54: "b \<le> 54" by simp
  have fl: "floorLog2 (of_nat n) = int b - 1"
    using npos by (simp add: floorLog2_def b_def)
  define e where "e = max (floorLog2 (of_nat n) - 52) (- 1074)"
  have e: "e = int b - 53" using bpos by (simp add: e_def fl)
  have v: "of_int (roundHalfEven (of_nat n / pow2 e)) * pow2 e = (of_nat n :: rat)"
  proof (cases "b \<le> 53")
    case True
    then have p: "pow2 e = 1 / 2 ^ (53 - b)"
      by (simp add: e pow2_nonpos nat_diff_distrib)
    have "(of_nat n :: rat) / pow2 e = of_int (int n * 2 ^ (53 - b))"
      by (simp add: p)
    then have "roundHalfEven (of_nat n / pow2 e) = int n * 2 ^ (53 - b)"
      by (simp only: roundHalfEven_of_int)
    then show ?thesis by (simp add: p)
  next
    case False
    with b54 have b: "b = 54" by simp
    with blow nle have n: "n = 2 ^ 53" by simp
    have p: "pow2 e = 2" by (simp add: e b pow2_def)
    have "(of_nat n :: rat) / pow2 e = of_int (2 ^ 52)"
      by (simp add: p n)
    then have "roundHalfEven (of_nat n / pow2 e) = 2 ^ 52"
      by (simp only: roundHalfEven_of_int)
    then show ?thesis by (simp add: p n)
  qed
  have small: "\<not> (2 ^ 1024 \<le> (of_nat n :: rat))"
  proof -
    have "(of_nat n :: rat) \<le> of_nat (2 ^ 53)" using nle by (simp only: of_nat_le_iff)
    also have "\<dots> < 2 ^ 1024" by simp
    finally show ?thesis by simp
  qed
  have sgn: "0 < i \<Longrightarrow> (of_nat n :: rat) = of_int i"
    "\<not> 0 < i \<Longrightarrow> - (of_nat n :: rat) = of_int i"
    using False by (auto simp: n_def)
  have "roundDouble (of_int i) = Fin (if 0 < i then of_nat n else - of_nat n)"
    using False small by (simp add: roundDouble_def Let_def absx v flip: e_def)
  with sgn show ?thesis by (cases "0 < i") simp_all
qed

lemma plusN_int:
  "\<bar>a + b\<bar> \<le> 2 ^ 53 \<Longrightarrow> plusN (Fin (of_int a)) (Fin (of_int b)) = Fin (of_int (a + b))"
  using roundDouble_of_int[of "a + b"] by simp


section \<open>Record extraction: what a row must pass\<close>

lemma processRow_SomeD:
  assumes "processRow rt d owner r = Some h"
  shows "max (companyColIndex d) (totalColIndex d) < length r"
    and "companyName h = companyNameOf rt d r"
    and "total h = quantityOf rt (cellAt r (totalColIndex d))"
    and "ownerName h = owner"
    and "\<not> isNoise (toLowerCase (companyName h))"
    and "1 < length (companyName h)"
    and "total h \<noteq> Fin 0"
  using assms by (auto simp: processRow_def Let_def split: if_splits)

lemma sliceFrom_memD:
  assumes "r \<in> set (sliceFrom k xs)"
  shows "\<exists>i. k \<le> int i \<and> i < length xs \<and> xs ! i = r"
proof (cases "0 \<le> k")
  case True
  with assms have "r \<in> set (drop (nat k) xs)" by (simp add: sliceFrom_def)
  then obtain j where "j < length xs - nat k" "drop (nat k) xs ! j = r"
    by (auto simp: in_set_conv_nth)
  then have "k \<le> int (nat k + j)" "nat k + j < length xs" "xs ! (nat k + j) = r"
    using True by auto
  then show ?thesis by blast
next
  case False
  with assms have "r \<in> set xs" by (auto simp: sliceFrom_def dest: in_set_dropD)
  then obtain i where "i < length xs" "xs ! i = r" by (auto simp: in_set_conv_nth)
  with False show ?thesis by (intro exI[of _ i]) auto
qed

lemma extractRecords_memD:
  assumes "h \<in> set (extractRecords rt d owner rawData)"
  shows "\<exists>i. dataStartRow d \<le> int i \<and> i < length rawData
             \<and> processRow rt d owner (rawData ! i) = Some h"
proof -
  from assms obtain r where r: "r \<in> set (sliceFrom (dataStartRow d) rawData)"
      and h: "processRow rt d owner r = Some h"
    by (auto simp: extractRecords_def List.map_filter_def)
  from sliceFrom_memD[OF r] h show ?thesis by auto
qed

lemma processFile_no_error:
  "AlertError \<notin> fst ` set (snd (processFile rt (name, Inr rawData)))"
  by (auto simp: processFile_def Let_def)

lemma exampleSheet_records:
  "extractRecords sampleRuntime exampleMapping ''me'' exampleSheet = [acmeRecord]"
  by code_simp

text \<open>
  Claim C8. A record comes from a row at an index not below \<open>dataStartRow\<close>; that row has
  at least \<open>max(companyColIndex, totalColIndex) + 1\<close> cells, the record's company name is
  the trimmed text of the company cell and is longer than one character, and its quantity
  is the parsed quantity of the row and is not 0. The rows that fail this are passed over:
  reading a file that could be decoded never raises an alert of type error.
\<close>

theorem record_emitted_only_if:
  assumes "h \<in> set (extractRecords rt d owner rawData)"
  shows "\<exists>i. dataStartRow d \<le> int i \<and> i < length rawData
             \<and> processRow rt d owner (rawData ! i) = Some h
             \<and> max (companyColIndex d) (totalColIndex d) + 1 \<le> length (rawData ! i)
             \<and> companyName h = trim (stringOr rt (cellAt (rawData ! i) (companyColIndex d)) [])
             \<and> 1 < length (companyName h)
             \<and> total h = quantityOf rt (cellAt (rawData ! i) (totalColIndex d))
             \<and> total h \<noteq> Fin 0
             \<and> AlertError \<notin> fst ` set (snd (processFile rt (name, Inr rawData)))"
proof -
  from extractRecords_memD[OF assms] obtain i where i: "dataStartRow d \<le> int i"
      "i < length rawData" "processRow rt d owner (rawData ! i) = Some h"
    by blast
  from processRow_SomeD[OF i(3)] i processFile_no_error[of rt name rawData]
  show ?thesis
    by (intro exI[of _ i]) (auto simp: companyNameOf_def)
qed

theorem record_emitted_only_if_witness:
  "acmeRecord \<in> set (extractRecords sampleRuntime exampleMapping ''me'' exampleSheet)
   \<and> (\<exists>i. dataStartRow exampleMapping \<le> int i \<and> i < length exampleSheet
          \<and> processRow sampleRuntime exampleMapping ''me'' (exampleSheet ! i) = Some acmeRecord
          \<and> max (companyColIndex exampleMapping) (totalColIndex exampleMapping) + 1
               \<le> length (exampleSheet ! i)
          \<and> companyName acmeRecord
               = trim (stringOr sampleRuntime
                         (cellAt (exampleSheet ! i) (companyColIndex exampleMapping)) [])
          \<and> 1 < length (companyName acmeRecord)
          \<and> total acmeRecord
               = quantityOf sampleRuntime (cellAt (exampleSheet ! i) (totalColIndex exampleMapping))
          \<and> total acmeRecord \<noteq> Fin 0
          \<and> AlertError \<notin> fst ` set (snd (processFile sampleRuntime (''book.xlsx'', Inr exampleSheet))))"
proof -
  have mem: "acmeRecord \<in> set (extractRecords sampleRuntime exampleMapping ''me'' exampleSheet)"
    by (simp add: exampleSheet_records)
  from mem record_emitted_only_if[OF mem, of "''book.xlsx''"] show ?thesis by blast
qed

text \<open>
  Claim C5. A row whose company name, trimmed and in lower case, contains \<open>total\<close>,
  \<open>grand\<close> or \<open>summary\<close> gives no record, whatever the mapping, the owner and the
  quantity; so no extracted record has such a name.
\<close>

theorem noise_rows_never_emitted:
  "(isNoise (toLowerCase (companyNameOf rt d r)) \<longrightarrow> processRow rt d owner r = None)
   \<and> (\<forall>h \<in> set (extractRecords rt d owner rawData). \<not> isNoise (toLowerCase (companyName h)))"
proof (intro conjI impI ballI)
  assume "isNoise (toLowerCase (companyNameOf rt d r))"
  then show "processRow rt d owner r = None"
    by (simp add: processRow_def Let_def)
next
  fix h assume "h \<in> set (extractRecords rt d owner rawData)"
  from extractRecords_memD[OF this] show "\<not> isNoise (toLowerCase (companyName h))"
    by (auto dest: processRow_SomeD(5))
qed

theorem noise_rows_never_emitted_witness:
  "isNoise (toLowerCase (companyNameOf sampleRuntime exampleMapping
                           [Text ''Grand Total'', Num (Fin 100)]))
   \<and> processRow sampleRuntime exampleMapping ''me'' [Text ''Grand Total'', Num (Fin 100)] = None
   \<and> extractRecords sampleRuntime exampleMapping ''me'' exampleSheet = [acmeRecord]
   \<and> \<not> isNoise (toLowerCase (companyName acmeRecord))"
proof -
  have n: "isNoise (toLowerCase (companyNameOf sampleRuntime exampleMapping
                                   [Text ''Grand Total'', Num (Fin 100)]))"
    by code_simp
  from n exampleSheet_records
    noise_rows_never_emitted[of sampleRuntime exampleMapping
      "[Text ''Grand Total'', Num (Fin 100)]" "''me''" exampleSheet]
  show ?thesis by simp
qed

text \<open>
  Claim C2, as the specification states it, fails: the program has no check of the sign
  or of the finiteness of a quantity. A number cell holding \<open>-5\<close> gives a record of
  quantity \<open>-5\<close>, and the text \<open>-Infinity\<close> gives a record of quantity \<open>-Infinity\<close>.
\<close>

theorem negative_quantity_is_emitted:
  "extractRecords sampleRuntime exampleMapping ''me'' negativeSheet
     = [\<lparr>companyName = ''Acme'', total = Fin (- 5), ownerName = ''me''\<rparr>,
        \<lparr>companyName = ''Beta'', total = NegInf, ownerName = ''me''\<rparr>]"
  by code_simp

lemma quantityOf_not_NaN: "\<not> isNumber v \<Longrightarrow> quantityOf rt v \<noteq> NaN"
  by (cases v) (auto simp: orZero_def)

lemma quantityOf_parsed:
  "\<not> isNumber v \<Longrightarrow>
   quantityOf rt v
     = (let p = parseFloat rt (removeCommas (stringOr rt v ''0''))
        in if p = NaN \<or> p = Fin 0 then Fin 0 else p)"
  by (cases v) (simp_all add: orZero_def Let_def)

lemma processRow_eq:
  "processRow rt d owner r
     = (if max (companyColIndex d) (totalColIndex d) < length r
           \<and> \<not> isNoise (toLowerCase (companyNameOf rt d r))
           \<and> 1 < length (companyNameOf rt d r)
           \<and> quantityOf rt (cellAt r (totalColIndex d)) \<noteq> Fin 0
        then Some \<lparr>companyName = companyNameOf rt d r,
                    total = quantityOf rt (cellAt r (totalColIndex d)),
                    ownerName = owner\<rparr>
        else None)"
  by (auto simp: processRow_def Let_def)

lemma map_filter_memI: "x \<in> set xs \<Longrightarrow> f x = Some y \<Longrightarrow> y \<in> set (List.map_filter f xs)"
  by (induction xs) (auto split: option.splits)

lemma extractRecords_memI:
  assumes "0 \<le> dataStartRow d" and "dataStartRow d \<le> int i" and "i < length rawData"
    and "processRow rt d owner (rawData ! i) = Some h"
  shows "h \<in> set (extractRecords rt d owner rawData)"
proof -
  have "nat (dataStartRow d) \<le> i" using assms(2) by simp
  then have "rawData ! i = drop (nat (dataStartRow d)) rawData ! (i - nat (dataStartRow d))"
    using assms(3) by simp
  moreover have "i - nat (dataStartRow d) < length (drop (nat (dataStartRow d)) rawData)"
    using assms(2,3) by simp
  ultimately have "rawData ! i \<in> set (drop (nat (dataStartRow d)) rawData)"
    by (metis nth_mem)
  then have "rawData ! i \<in> set (sliceFrom (dataStartRow d) rawData)"
    using assms(1) by (simp add: sliceFrom_def)
  then show ?thesis
    unfolding extractRecords_def using assms(4) by (rule map_filter_memI)
qed

text \<open>
  Claim C2, amended. The quantity of a number cell is the number itself, whatever its sign
  and also when it is not finite; the quantity of any other cell is what \<open>parseFloat\<close>
  reads from its text without commas, with \<open>NaN\<close> and 0 replaced by 0, so it is never
  \<open>NaN\<close>. The sign and the finiteness of a quantity are never tested: a row gives a
  record exactly when it is long enough, its name is no noise and is longer than one
  character and its quantity is not 0, and the record carries that quantity unchanged.
  From the start row on every such row is extracted, and every extracted record is the
  record of a row from the start row on, with the quantity of that row, which is not 0.
\<close>

theorem quantity_kept_as_parsed:
  "quantityOf rt (Num n) = n
   \<and> (\<not> isNumber v \<longrightarrow>
        quantityOf rt v
          = (let p = parseFloat rt (removeCommas (stringOr rt v ''0''))
             in if p = NaN \<or> p = Fin 0 then Fin 0 else p)
        \<and> quantityOf rt v \<noteq> NaN)
   \<and> processRow rt d owner r
        = (if max (companyColIndex d) (totalColIndex d) < length r
              \<and> \<not> isNoise (toLowerCase (companyNameOf rt d r))
              \<and> 1 < length (companyNameOf rt d r)
              \<and> quantityOf rt (cellAt r (totalColIndex d)) \<noteq> Fin 0
           then Some \<lparr>companyName = companyNameOf rt d r,
                       total = quantityOf rt (cellAt r (totalColIndex d)),
                       ownerName = owner\<rparr>
           else None)
   \<and> (\<forall>i h. 0 \<le> dataStartRow d \<longrightarrow> dataStartRow d \<le> int i \<longrightarrow> i < length rawData \<longrightarrow>
          processRow rt d owner (rawData ! i) = Some h \<longrightarrow>
          h \<in> set (extractRecords rt d owner rawData))
   \<and> (\<forall>h \<in> set (extractRecords rt d owner rawData).
        total h \<noteq> Fin 0
        \<and> (\<exists>i. dataStartRow d \<le> int i \<and> i < length rawData
               \<and> processRow rt d owner (rawData ! i) = Some h
               \<and> total h = quantityOf rt (cellAt (rawData ! i) (totalColIndex d))))"
proof (intro conjI impI ballI allI)
  show "quantityOf rt (Num n) = n" by simp
next
  assume "\<not> isNumber v"
  then show "quantityOf rt v
          = (let p = parseFloat rt (removeCommas (stringOr rt v ''0''))
             in if p = NaN \<or> p = Fin 0 then Fin 0 else p)"
    by (rule quantityOf_parsed)
next
  assume "\<not> isNumber v"
  then show "quantityOf rt v \<noteq> NaN" by (rule quantityOf_not_NaN)
next
  show "processRow rt d owner r
        = (if max (companyColIndex d) (totalColIndex d) < length r
              \<and> \<not> isNoise (toLowerCase (companyNameOf rt d r))
              \<and> 1 < length (companyNameOf rt d r)
              \<and> quantityOf rt (cellAt r (totalColIndex d)) \<noteq> Fin 0
           then Some \<lparr>companyName = companyNameOf rt d r,
                       total = quantityOf rt (cellAt r (totalColIndex d)),
                       ownerName = owner\<rparr>
           else None)"
    by (rule processRow_eq)
next
  fix i h
  assume "0 \<le> dataStartRow d" "dataStartRow d \<le> int i" "i < length rawData"
    "processRow rt d owner (rawData ! i) = Some h"
  then show "h \<in> set (extractRecords rt d owner rawData)" by (rule extractRecords_memI)
next
  fix h assume h: "h \<in> set (extractRecords rt d owner rawData)"
  from extractRecords_memD[OF h] obtain i where i: "dataStartRow d \<le> int i" "i < length rawData"
      "processRow rt d owner (rawData ! i) = Some h" by blast
  from processRow_SomeD(7)[OF i(3)] show "total h \<noteq> Fin 0" .
  from processRow_SomeD(3)[OF i(3)] i
  show "\<exists>i. dataStartRow d \<le> int i \<and> i < length rawData
               \<and> processRow rt d owner (rawData ! i) = Some h
               \<and> total h = quantityOf rt (cellAt (rawData ! i) (totalColIndex d))"
    by blast
qed

theorem quantity_kept_as_parsed_witness:
  "quantityOf sampleRuntime (Num (Fin (- 5))) = Fin (- 5)
   \<and> \<not> isNumber (Text ''n/a'')
   \<and> parseFloat sampleRuntime (removeCommas (stringOr sampleRuntime (Text ''n/a'') ''0'')) = NaN
   \<and> quantityOf sampleRuntime (Text ''n/a'') = Fin 0
   \<and> processRow sampleRuntime exampleMapping ''me'' (negativeSheet ! 0)
       = Some \<lparr>companyName = ''Acme'', total = Fin (- 5), ownerName = ''me''\<rparr>
   \<and> \<lparr>companyName = ''Acme'', total = Fin (- 5), ownerName = ''me''\<rparr>
       \<in> set (extractRecords sampleRuntime exampleMapping ''me'' negativeSheet)
   \<and> extractRecords sampleRuntime exampleMapping ''me'' exampleSheet = [acmeRecord]
   \<and> total acmeRecord \<noteq> Fin 0
   \<and> (\<exists>i. dataStartRow exampleMapping \<le> int i \<and> i < length exampleSheet
          \<and> processRow sampleRuntime exampleMapping ''me'' (exampleSheet ! i) = Some acmeRecord
          \<and> total acmeRecord
               = quantityOf sampleRuntime (cellAt (exampleSheet ! i) (totalColIndex exampleMapping)))"
proof -
  note inst = quantity_kept_as_parsed[of sampleRuntime "Fin (- 5)" "Text ''n/a''" exampleMapping
      "''me''" "negativeSheet ! 0"]
  have nan: "parseFloat sampleRuntime (removeCommas (stringOr sampleRuntime (Text ''n/a'') ''0''))
               = NaN"
    by code_simp
  have row: "processRow sampleRuntime exampleMapping ''me'' (negativeSheet ! 0)
       = Some \<lparr>companyName = ''Acme'', total = Fin (- 5), ownerName = ''me''\<rparr>"
    by code_simp
  have pre: "0 \<le> dataStartRow exampleMapping" "dataStartRow exampleMapping \<le> int 0"
    "0 < length negativeSheet"
    by (simp_all add: exampleMapping_def negativeSheet_def)
  have q1: "quantityOf sampleRuntime (Num (Fin (- 5))) = Fin (- 5)"
    using inst[of exampleSheet] by (rule conjunct1)
  have q2: "quantityOf sampleRuntime (Text ''n/a'') = Fin 0"
    using inst[of exampleSheet, THEN conjunct2, THEN conjunct1] nan by (simp add: Let_def)
  have mem: "\<lparr>companyName = ''Acme'', total = Fin (- 5), ownerName = ''me''\<rparr>
       \<in> set (extractRecords sampleRuntime exampleMapping ''me'' negativeSheet)"
    using inst[of negativeSheet, THEN conjunct2, THEN conjunct2, THEN conjunct2, THEN conjunct1,
              rule_format, OF pre row] .
  have "acmeRecord \<in> set (extractRecords sampleRuntime exampleMapping ''me'' exampleSheet)"
    by (simp add: exampleSheet_records)
  with inst[of exampleSheet, THEN conjunct2, THEN conjunct2, THEN conjunct2, THEN conjunct2]
  have last: "total acmeRecord \<noteq> Fin 0
        \<and> (\<exists>i. dataStartRow exampleMapping \<le> int i \<and> i < length exampleSheet
               \<and> processRow sampleRuntime exampleMapping ''me'' (exampleSheet ! i) = Some acmeRecord
               \<and> total acmeRecord
                    = quantityOf sampleRuntime
                        (cellAt (exampleSheet ! i) (totalColIndex exampleMapping)))"
    by blast
  have "\<not> isNumber (Text ''n/a'')" by simp
  with q1 nan q2 row mem exampleSheet_records last show ?thesis by (intro conjI) auto
qed


section \<open>Format detection: the fallback, the generic code and short rows\<close>

lemma headerScan_no_header:
  "\<forall>c \<in> set cs. \<not> isCompanyHeader (cellValueOf rt c) \<and> \<not> isTotalHeader (cellValueOf rt c)
   \<Longrightarrow> headerScan rt i j cs st = st"
  by (induction cs arbitrary: j st) (auto simp: headerCell_def)

lemma scanRows_no_signal:
  "\<forall>r \<in> set rs. 3 \<le> length r \<longrightarrow>
      \<not> hasISIN rt r \<and> \<not> hasNumericData r \<and>
      (\<forall>c \<in> set r. \<not> isCompanyHeader (cellValueOf rt c) \<and> \<not> isTotalHeader (cellValueOf rt c))
   \<Longrightarrow> scanRows rt i rs st = st"
proof (induction rs arbitrary: i st)
  case Nil
  then show ?case by simp
next
  case (Cons r rs)
  then show ?case
    by (cases "length r < 3") (auto simp: headerScan_no_header)
qed

text \<open>
  Claim C6. For a sheet of fewer than 15 rows in which no row looks like data and no cell
  is a header keyword, detection returns the default mapping: start row 5, company
  column 1, quantity column 9.
\<close>

theorem detect_fallback:
  assumes "length rawData < 15"
    and "\<forall>r \<in> set rawData. \<not> hasISIN rt r \<and> \<not> hasNumericData r \<and>
           (\<forall>c \<in> set r. \<not> isCompanyHeader (cellValueOf rt c)
                       \<and> \<not> isTotalHeader (cellValueOf rt c))"
  shows "detect rt rawData = \<lparr>dataStartRow = 5, companyColIndex = 1, totalColIndex = 9\<rparr>"
proof -
  have "scanRows rt 0 (take 15 rawData) initialDetection = initialDetection"
    using assms(2) by (intro scanRows_no_signal) (auto dest: in_set_takeD)
  then show ?thesis
    by (simp add: detect_def initialDetection_def)
qed

theorem detect_fallback_witness:
  "length plainSheet < 15
   \<and> list_all (\<lambda>r. \<not> hasISIN sampleRuntime r \<and> \<not> hasNumericData r \<and>
                list_all (\<lambda>c. \<not> isCompanyHeader (cellValueOf sampleRuntime c)
                              \<and> \<not> isTotalHeader (cellValueOf sampleRuntime c)) r) plainSheet
   \<and> detect sampleRuntime plainSheet
       = \<lparr>dataStartRow = 5, companyColIndex = 1, totalColIndex = 9\<rparr>"
proof -
  have len: "length plainSheet < 15" by (simp add: plainSheet_def)
  have quiet: "list_all (\<lambda>r. \<not> hasISIN sampleRuntime r \<and> \<not> hasNumericData r \<and>
                list_all (\<lambda>c. \<not> isCompanyHeader (cellValueOf sampleRuntime c)
                              \<and> \<not> isTotalHeader (cellValueOf sampleRuntime c)) r) plainSheet"
    by code_simp
  from quiet have "\<forall>r \<in> set plainSheet. \<not> hasISIN sampleRuntime r \<and> \<not> hasNumericData r \<and>
           (\<forall>c \<in> set r. \<not> isCompanyHeader (cellValueOf sampleRuntime c)
                       \<and> \<not> isTotalHeader (cellValueOf sampleRuntime c))"
    by (simp add: list_all_iff)
  from detect_fallback[OF len this] len quiet show ?thesis by simp
qed

lemma scanRows_skip_short:
  "\<forall>r \<in> set pre. length r < 3
   \<Longrightarrow> scanRows rt i (pre @ rest) st = scanRows rt (i + length pre) rest st"
  by (induction pre arbitrary: i) auto

lemma isAlnum_not_space: "isAlnum c \<Longrightarrow> \<not> isWhiteSpace c"
  by (auto simp: isAlnum_def isLetter_def isDigit_def isWhiteSpace_def
                 upperChars_def lowerChars_def)

lemma trim_no_space:
  assumes "\<forall>c \<in> set s. \<not> isWhiteSpace c"
  shows "trim s = s"
proof -
  have "dropWhile isWhiteSpace s = s"
    using assms by (cases s) auto
  moreover have "dropWhile isWhiteSpace (rev s) = rev s"
    using assms by (cases "rev s") (auto simp: rev_eq_Cons_iff)
  ultimately show ?thesis by (simp add: trim_def)
qed

lemma genericCode_iff:
  "genericCode s \<longleftrightarrow> 3 \<le> length s \<and> isLetter (s ! 0) \<and> isLetter (s ! 1) \<and> list_all isAlnum (drop 2 s)"
  by (cases s rule: genericCode.cases) auto

text \<open>
  Claim C9. When the first row of at least three cells, among the first 15 rows, has a
  first cell whose text is made of letters and digits only, is at least three characters
  long and begins with two letters (a word such as \<open>Date\<close>), the row passes for a data
  row: \<open>dataStartRow\<close> is its index, and since the scan stops there, neither this row nor
  a later one can set a column: the columns keep their defaults 1 and 9.
\<close>

theorem generic_code_row_starts_data:
  assumes "i < length rawData" and "i < 15"
    and "\<forall>j < i. length (rawData ! j) < 3"
    and "3 \<le> length (rawData ! i)"
    and "stringOr rt (cellAt (rawData ! i) 0) [] = s"
    and "list_all isAlnum s" and "3 \<le> length s" and "isLetter (s ! 0)" and "isLetter (s ! 1)"
  shows "hasISIN rt (rawData ! i)
     \<and> detect rt rawData = \<lparr>dataStartRow = int i, companyColIndex = 1, totalColIndex = 9\<rparr>"
proof -
  have "trim s = s"
    using assms(6) by (intro trim_no_space) (auto simp: list_all_iff isAlnum_not_space)
  then have fc: "firstCell rt (rawData ! i) = s"
    using assms(5) by (simp add: firstCell_def)
  have "list_all isAlnum (drop 2 s)"
    using assms(6) by (auto simp: list_all_iff dest: in_set_dropD)
  then have isin: "hasISIN rt (rawData ! i)"
    using assms(7-9) by (simp add: hasISIN_def fc genericCode_iff)
  let ?w = "take 15 rawData"
  have len: "i < length ?w" using assms(1,2) by simp
  have split: "?w = take i rawData @ rawData ! i # drop (Suc i) ?w"
    using id_take_nth_drop[OF len] assms(2) by (simp add: min_def)
  have short: "\<forall>r \<in> set (take i rawData). length r < 3"
    using assms(1,3) by (auto simp: in_set_conv_nth)
  have "scanRows rt 0 ?w initialDetection
          = scanRows rt (0 + length (take i rawData)) (rawData ! i # drop (Suc i) ?w) initialDetection"
    by (subst split) (rule scanRows_skip_short[OF short])
  also have "\<dots> = initialDetection\<lparr>dataStartRow := int i\<rparr>"
    using assms(1,4) isin by (simp add: min_def)
  finally show ?thesis
    using isin by (simp add: detect_def initialDetection_def)
qed

theorem generic_code_row_starts_data_witness:
  "1 < length dateSheet \<and> (1::nat) < 15
   \<and> list_all (\<lambda>r. length r < 3) (take 1 dateSheet)
   \<and> 3 \<le> length (dateSheet ! 1)
   \<and> stringOr sampleRuntime (cellAt (dateSheet ! 1) 0) [] = ''Date''
   \<and> list_all isAlnum ''Date'' \<and> 3 \<le> length ''Date''
   \<and> isLetter (''Date'' ! 0) \<and> isLetter (''Date'' ! 1)
   \<and> hasISIN sampleRuntime (dateSheet ! 1)
   \<and> detect sampleRuntime dateSheet
       = \<lparr>dataStartRow = 1, companyColIndex = 1, totalColIndex = 9\<rparr>"
proof -
  have a: "1 < length dateSheet" "(1::nat) < 15" "3 \<le> length (dateSheet ! 1)"
    "stringOr sampleRuntime (cellAt (dateSheet ! 1) 0) [] = ''Date''"
    by (simp_all add: dateSheet_def stringOr_def cellAt_def)
  have b: "\<forall>j < 1. length (dateSheet ! j) < 3" by (simp add: dateSheet_def)
  have c: "list_all isAlnum ''Date''" "3 \<le> length ''Date''"
    "isLetter (''Date'' ! 0)" "isLetter (''Date'' ! 1)"
    by (simp_all add: isAlnum_def isLetter_def upperChars_def lowerChars_def)
  have d: "list_all (\<lambda>r. length r < 3) (take 1 dateSheet)" by (simp add: dateSheet_def)
  from generic_code_row_starts_data[OF a(1,2) b a(3,4) c] a c d show ?thesis by simp
qed

lemma scanRows_short_rows_alike:
  "list_all2 (\<lambda>a b. a = b \<or> (length a < 3 \<and> length b < 3)) xs ys
   \<Longrightarrow> scanRows rt i xs st = scanRows rt i ys st"
  by (induction xs ys arbitrary: i st rule: list_all2_induct) auto

lemma scanRows_eq_scanLongRows: "scanRows rt i rs st = scanLongRows rt (longRows i rs) st"
  by (induction rs arbitrary: i st) (simp_all add: longRows_def enumerate_simps)

lemma detect_short_row_replaced:
  assumes "i < length rawData" and "length (rawData ! i) < 3" and "length r' < 3"
  shows "detect rt (rawData[i := r']) = detect rt rawData"
proof -
  have "list_all2 (\<lambda>a b. a = b \<or> (length a < 3 \<and> length b < 3))
          ((take 15 rawData)[i := r']) (take 15 rawData)"
  proof (rule list_all2_all_nthI)
    show "length ((take 15 rawData)[i := r']) = length (take 15 rawData)" by simp
  next
    fix n assume "n < length ((take 15 rawData)[i := r'])"
    then have n: "n < length (take 15 rawData)" by simp
    show "(take 15 rawData)[i := r'] ! n = take 15 rawData ! n
          \<or> (length ((take 15 rawData)[i := r'] ! n) < 3 \<and> length (take 15 rawData ! n) < 3)"
    proof (cases "n = i")
      case True
      with n assms show ?thesis by simp
    next
      case False
      then show ?thesis by simp
    qed
  qed
  then have "scanRows rt 0 (take 15 (rawData[i := r'])) initialDetection
               = scanRows rt 0 (take 15 rawData) initialDetection"
    unfolding take_update_swap by (rule scanRows_short_rows_alike)
  then show ?thesis by (simp add: detect_def)
qed

text \<open>
  Claim C10. A row of fewer than three cells has no part in the detection. When the loop
  comes to such a row at index \<open>k\<close> in the state \<open>st\<close>, it goes on with the row at index
  \<open>k + 1\<close> in the same state \<open>st\<close>: the start row and the two columns stay as they were,
  whatever the cells of the row hold. The loop over any rows is the loop over the rows of
  at least three cells alone, each under its own index, and so is the detection on the
  first 15 rows of a sheet. Putting any other row of fewer than three cells (the empty
  row, say) in the place of such a row gives the same mapping.
\<close>

theorem short_rows_ignored:
  assumes "i < length rawData" and "length (rawData ! i) < 3" and "length r' < 3"
  shows "detect rt (rawData[i := r']) = detect rt rawData
     \<and> scanRows rt k (rawData ! i # rs) st = scanRows rt (Suc k) rs st
     \<and> scanRows rt k rs st = scanLongRows rt (longRows k rs) st
     \<and> detect rt rawData
         = (let st' = scanLongRows rt (longRows 0 (take 15 rawData)) initialDetection
            in if dataStartRow st' < 0 then st'\<lparr>dataStartRow := 5\<rparr> else st')"
proof (intro conjI)
  show "detect rt (rawData[i := r']) = detect rt rawData"
    using assms by (rule detect_short_row_replaced)
  show "scanRows rt k (rawData ! i # rs) st = scanRows rt (Suc k) rs st"
    using assms(2) by simp
  show "scanRows rt k rs st = scanLongRows rt (longRows k rs) st"
    by (rule scanRows_eq_scanLongRows)
  show "detect rt rawData
         = (let st' = scanLongRows rt (longRows 0 (take 15 rawData)) initialDetection
            in if dataStartRow st' < 0 then st'\<lparr>dataStartRow := 5\<rparr> else st')"
    by (simp only: detect_def scanRows_eq_scanLongRows)
qed

theorem short_rows_ignored_witness:
  "0 < length shortHeaderSheet \<and> length (shortHeaderSheet ! 0) < 3 \<and> length ([] :: row) < 3
   \<and> isCompanyHeader (cellValueOf sampleRuntime (shortHeaderSheet ! 0 ! 0))
   \<and> isTotalHeader (cellValueOf sampleRuntime (shortHeaderSheet ! 0 ! 1))
   \<and> detect sampleRuntime (shortHeaderSheet[0 := []]) = detect sampleRuntime shortHeaderSheet
   \<and> scanRows sampleRuntime 0 (shortHeaderSheet ! 0 # tl shortHeaderSheet) initialDetection
       = scanRows sampleRuntime (Suc 0) (tl shortHeaderSheet) initialDetection
   \<and> longRows 0 (take 15 shortHeaderSheet) = [(1, shortHeaderSheet ! 1)]
   \<and> detect sampleRuntime shortHeaderSheet
       = (let st' = scanLongRows sampleRuntime (longRows 0 (take 15 shortHeaderSheet))
                      initialDetection
          in if dataStartRow st' < 0 then st'\<lparr>dataStartRow := 5\<rparr> else st')
   \<and> detect sampleRuntime shortHeaderSheet
       = \<lparr>dataStartRow = 2, companyColIndex = 1, totalColIndex = 9\<rparr>"
proof -
  have a: "0 < length shortHeaderSheet" "length (shortHeaderSheet ! 0) < 3"
    "length ([] :: row) < 3"
    by (simp_all add: shortHeaderSheet_def)
  have b: "isCompanyHeader (cellValueOf sampleRuntime (shortHeaderSheet ! 0 ! 0))"
    "isTotalHeader (cellValueOf sampleRuntime (shortHeaderSheet ! 0 ! 1))"
    by code_simp+
  have c: "detect sampleRuntime shortHeaderSheet
             = \<lparr>dataStartRow = 2, companyColIndex = 1, totalColIndex = 9\<rparr>"
    by code_simp
  have d: "longRows 0 (take 15 shortHeaderSheet) = [(1, shortHeaderSheet ! 1)]"
    by (simp add: longRows_def shortHeaderSheet_def enumerate_simps)
  note inst = short_rows_ignored[OF a, of sampleRuntime 0 "tl shortHeaderSheet" initialDetection]
  from inst a b c d show ?thesis by (intro conjI) (simp_all only: simp_thms)
qed


section \<open>Sorting by the total\<close>





lemma mset_insertBy: "mset (insertBy cmp x xs) = add_mset x (mset xs)"
  by (induction xs) auto

lemma mset_sortBy: "mset (sortBy cmp xs) = mset xs"
  by (induction xs) (auto simp: sortBy_def mset_insertBy)

lemma mset_objectEntries: "mset (objectEntries obj) = mset obj"
  by (simp add: objectEntries_def)

text \<open>The sorted view holds the entries of the table, each as often as the table does.\<close>

lemma getSortedEntries_same_entries:
  "mset (getSortedEntries rt sortColumn sortDirection data) = mset data"
  by (cases sortColumn) (simp_all add: getSortedEntries_def mset_sortBy mset_objectEntries)




section \<open>The pivot table: structure\<close>

lemma map_of_setProp: "map_of (setProp k v kvs) = (map_of kvs)(k \<mapsto> v)"
  by (induction kvs) (auto simp: fun_eq_iff)

lemma keys_setProp: "fst ` set (setProp k v kvs) = insert k (fst ` set kvs)"
  by (simp add: map_of_setProp flip: dom_map_of_conv_image_fst)

lemma distinct_setProp: "distinct (map fst kvs) \<Longrightarrow> distinct (map fst (setProp k v kvs))"
  by (induction kvs) (auto simp: keys_setProp)

lemma map_of_addToRow:
  "map_of (addToRow r h) =
     (let m1 = (map_of r)(ownerName h \<mapsto>
                  plusN (case map_of r (ownerName h) of Some v \<Rightarrow> orZero v | None \<Rightarrow> Fin 0)
                        (total h))
      in m1(totalHoldings \<mapsto>
              plusN (case m1 totalHoldings of Some v \<Rightarrow> v | None \<Rightarrow> NaN) (total h)))"
  by (simp add: addToRow_def Let_def map_of_setProp)

lemma keys_addToRow:
  "fst ` set (addToRow r h) = insert totalHoldings (insert (ownerName h) (fst ` set r))"
  by (simp add: addToRow_def Let_def keys_setProp)

lemma distinct_addToRow: "distinct (map fst r) \<Longrightarrow> distinct (map fst (addToRow r h))"
  by (simp add: addToRow_def Let_def distinct_setProp)

lemma companyRow_Nil: "companyRow [] = [(totalHoldings, Fin 0)]"
  by (simp add: companyRow_def)

lemma companyRow_snoc: "companyRow (hs @ [h]) = addToRow (companyRow hs) h"
  by (simp add: companyRow_def)

lemma keys_companyRow: "fst ` set (companyRow hs) = insert totalHoldings (ownerName ` set hs)"
  by (induction hs rule: rev_induct) (auto simp: companyRow_Nil companyRow_snoc keys_addToRow)

lemma distinct_companyRow: "distinct (map fst (companyRow hs))"
  by (induction hs rule: rev_induct) (simp_all add: companyRow_Nil companyRow_snoc distinct_addToRow)

lemma map_of_addToPivot:
  "map_of (addToPivot p h) =
     (map_of p)(companyName h \<mapsto>
        addToRow (case map_of p (companyName h) of None \<Rightarrow> [(totalHoldings, Fin 0)] | Some r \<Rightarrow> r) h)"
  by (cases "map_of p (companyName h)") (simp_all add: addToPivot_def Let_def map_of_setProp)

lemma distinct_addToPivot: "distinct (map fst p) \<Longrightarrow> distinct (map fst (addToPivot p h))"
  by (cases "map_of p (companyName h)") (simp_all add: addToPivot_def Let_def distinct_setProp)

lemma buildPivot_Nil: "buildPivot [] = []"
  by (simp add: buildPivot_def)

lemma buildPivot_snoc: "buildPivot (rs @ [h]) = addToPivot (buildPivot rs) h"
  by (simp add: buildPivot_def)

lemma distinct_buildPivot: "distinct (map fst (buildPivot rs))"
  by (induction rs rule: rev_induct) (simp_all add: buildPivot_snoc distinct_addToPivot buildPivot_Nil)

text \<open>The row of a company in the table is the row built from the records of that company.\<close>

lemma map_of_buildPivot:
  "map_of (buildPivot rs) c =
     (if c \<in> companyName ` set rs then Some (companyRow (recordsOf c rs)) else None)"
proof (induction rs arbitrary: c rule: rev_induct)
  case Nil
  then show ?case by (simp add: buildPivot_def)
next
  case (snoc h rs)
  have old: "(case map_of (buildPivot rs) (companyName h) of
                None \<Rightarrow> [(totalHoldings, Fin 0)] | Some r \<Rightarrow> r)
             = companyRow (recordsOf (companyName h) rs)"
  proof (cases "companyName h \<in> companyName ` set rs")
    case True
    then show ?thesis by (simp add: snoc.IH)
  next
    case False
    then have "\<And>x. x \<in> set rs \<Longrightarrow> companyName x \<noteq> companyName h"
      by (metis imageI)
    then have "recordsOf (companyName h) rs = []"
      by (simp add: recordsOf_def filter_empty_conv)
    with False show ?thesis by (simp add: snoc.IH companyRow_Nil)
  qed
  show ?case
  proof (cases "c = companyName h")
    case True
    have "map_of (buildPivot (rs @ [h])) c
            = Some (addToRow (companyRow (recordsOf (companyName h) rs)) h)"
      unfolding buildPivot_snoc map_of_addToPivot old by (simp add: True)
    moreover have "companyRow (recordsOf c (rs @ [h]))
                     = addToRow (companyRow (recordsOf (companyName h) rs)) h"
      by (simp add: True recordsOf_def companyRow_snoc)
    ultimately show ?thesis by (simp add: True)
  next
    case False
    have "map_of (buildPivot (rs @ [h])) c = map_of (buildPivot rs) c"
      unfolding buildPivot_snoc map_of_addToPivot using False by simp
    moreover have "recordsOf c (rs @ [h]) = recordsOf c rs"
      using False by (auto simp: recordsOf_def)
    ultimately show ?thesis using False by (auto simp: snoc.IH)
  qed
qed

lemma keys_buildPivot: "fst ` set (buildPivot rs) = companyName ` set rs"
proof -
  have "fst ` set (buildPivot rs) = dom (map_of (buildPivot rs))"
    by (simp add: dom_map_of_conv_image_fst)
  also have "\<dots> = companyName ` set rs"
    by (auto simp: dom_def map_of_buildPivot)
  finally show ?thesis .
qed


section \<open>The pivot table: whole quantities\<close>

lemma orZero_Fin: "orZero (Fin x) = Fin x"
  by (simp add: orZero_def)

lemma magnitude_nonneg: "0 \<le> magnitude hs"
  by (induction hs) (auto simp: magnitude_def)

lemma magnitude_append: "magnitude (xs @ ys) = magnitude xs + magnitude ys"
  by (simp add: magnitude_def)

lemma magnitude_filter_le: "magnitude (filter P hs) \<le> magnitude hs"
  by (induction hs) (auto simp: magnitude_def)

lemma magnitude_take_le: "magnitude (take n hs) \<le> magnitude hs"
proof -
  have "magnitude hs = magnitude (take n hs) + magnitude (drop n hs)"
    by (simp flip: magnitude_append)
  with magnitude_nonneg[of "drop n hs"] show ?thesis by simp
qed

lemma abs_quantity_sum_le: "\<bar>\<Sum>h\<leftarrow>hs. wholeQuantity h\<bar> \<le> magnitude hs"
  unfolding magnitude_def by (induction hs) auto

lemma cellSum_snoc:
  "cellSum (hs @ [h]) k =
     cellSum hs k + (if ownerName h = k then wholeQuantity h else 0)
     + (if k = totalHoldings then wholeQuantity h else 0)"
  by (simp add: cellSum_def)

lemma cellSum_absent:
  assumes "k \<noteq> totalHoldings" and "k \<notin> ownerName ` set hs"
  shows "cellSum hs k = 0"
proof -
  from assms(2) have "\<And>h. h \<in> set hs \<Longrightarrow> ownerName h \<noteq> k" by (metis imageI)
  then have "filter (\<lambda>h. ownerName h = k) hs = []" by (simp add: filter_empty_conv)
  with assms(1) show ?thesis by (simp add: cellSum_def)
qed

text \<open>
  A bound on every value that the additions on the row of \<open>hs\<close> produce: the quantities
  of the owner \<open>Total Holdings\<close> count twice, since such a record is added twice to the
  same cell.
\<close>

lemma cellSum_bound:
  "\<bar>cellSum hs k\<bar> \<le> magnitude hs + magnitude (filter (\<lambda>h. ownerName h = totalHoldings) hs)"
proof (cases "k = totalHoldings")
  case True
  have "\<bar>cellSum hs k\<bar> \<le> \<bar>\<Sum>h\<leftarrow>filter (\<lambda>h. ownerName h = totalHoldings) hs. wholeQuantity h\<bar>
           + \<bar>\<Sum>h\<leftarrow>hs. wholeQuantity h\<bar>"
    by (simp add: cellSum_def True)
  also have "\<dots> \<le> magnitude (filter (\<lambda>h. ownerName h = totalHoldings) hs) + magnitude hs"
    by (intro add_mono abs_quantity_sum_le)
  finally show ?thesis by simp
next
  case False
  have "\<bar>cellSum hs k\<bar> = \<bar>\<Sum>h\<leftarrow>filter (\<lambda>h. ownerName h = k) hs. wholeQuantity h\<bar>"
    by (simp add: cellSum_def False)
  also have "\<dots> \<le> magnitude (filter (\<lambda>h. ownerName h = k) hs)"
    by (rule abs_quantity_sum_le)
  also have "\<dots> \<le> magnitude hs" by (rule magnitude_filter_le)
  finally show ?thesis
    using magnitude_nonneg[of "filter (\<lambda>h. ownerName h = totalHoldings) hs"] by simp
qed

lemma companyRow_values:
  assumes "\<forall>h \<in> set hs. isWhole h"
    and "magnitude hs + magnitude (filter (\<lambda>h. ownerName h = totalHoldings) hs) \<le> 2 ^ 53"
  shows "map_of (companyRow hs) k =
           (if k = totalHoldings \<or> k \<in> ownerName ` set hs
            then Some (Fin (of_int (cellSum hs k))) else None)"
  using assms
proof (induction hs arbitrary: k rule: rev_induct)
  case Nil
  then show ?case by (simp add: companyRow_Nil cellSum_def)
next
  case (snoc h hs)
  define w where "w = ownerName h"
  define z where "z = wholeQuantity h"
  define B where "B = magnitude hs + magnitude (filter (\<lambda>h. ownerName h = totalHoldings) hs)"
  have tot: "total h = Fin (of_int z)"
    using snoc.prems(1) by (simp add: isWhole_def z_def)
  have Bnew: "B + \<bar>z\<bar> + (if w = totalHoldings then \<bar>z\<bar> else 0) \<le> 2 ^ 53"
    using snoc.prems(2) by (auto simp: B_def magnitude_def w_def z_def)
  then have Bold: "B \<le> 2 ^ 53" by (simp split: if_splits)
  have ih: "map_of (companyRow hs) k =
           (if k = totalHoldings \<or> k \<in> ownerName ` set hs
            then Some (Fin (of_int (cellSum hs k))) else None)" for k
    using snoc.prems(1) Bold by (intro snoc.IH) (simp_all add: B_def)
  have bound: "\<bar>cellSum hs k\<bar> \<le> B" for k
    unfolding B_def by (rule cellSum_bound)
  have old: "(case map_of (companyRow hs) w of Some v \<Rightarrow> orZero v | None \<Rightarrow> Fin 0)
               = Fin (of_int (cellSum hs w))"
    by (simp add: ih orZero_Fin cellSum_absent)
  have v1: "plusN (Fin (of_int (cellSum hs w))) (Fin (of_int z)) = Fin (of_int (cellSum hs w + z))"
    using bound[of w] Bnew by (intro plusN_int) (simp split: if_splits)
  have thv: "map_of (companyRow hs) totalHoldings = Some (Fin (of_int (cellSum hs totalHoldings)))"
    by (simp add: ih)
  show ?case
  proof (cases "w = totalHoldings")
    case True
    have v2: "plusN (Fin (of_int (cellSum hs w + z))) (Fin (of_int z))
                = Fin (of_int (cellSum hs w + z + z))"
      using bound[of w] Bnew True by (intro plusN_int) simp
    have "map_of (companyRow (hs @ [h])) =
            (map_of (companyRow hs))(totalHoldings \<mapsto> Fin (of_int (cellSum hs totalHoldings + z + z)))"
      using True old v1 v2
      by (simp add: companyRow_snoc map_of_addToRow Let_def tot flip: w_def)
    then show ?thesis
      using True by (auto simp: ih cellSum_snoc simp flip: w_def z_def)
  next
    case False
    have v2: "plusN (Fin (of_int (cellSum hs totalHoldings))) (Fin (of_int z))
                = Fin (of_int (cellSum hs totalHoldings + z))"
      using bound[of totalHoldings] Bnew by (intro plusN_int) (simp split: if_splits)
    have "map_of (companyRow (hs @ [h])) =
            (map_of (companyRow hs))(w \<mapsto> Fin (of_int (cellSum hs w + z)),
               totalHoldings \<mapsto> Fin (of_int (cellSum hs totalHoldings + z)))"
      using False old v1 v2 thv
      by (simp add: companyRow_snoc map_of_addToRow Let_def tot flip: w_def)
    then show ?thesis
      using False by (auto simp: ih cellSum_snoc simp flip: w_def z_def)
  qed
qed


section \<open>The total of a row and the sum of its owners\<close>

lemma ownerSum_setProp_total: "ownerSum (setProp totalHoldings v r) = ownerSum r"
  by (induction r) (auto simp: ownerSum_def ownerEntries_def)

lemma ownerSum_setProp_owner:
  "k \<noteq> totalHoldings \<Longrightarrow>
   ownerSum (setProp k v r)
     = ownerSum r - (case map_of r k of Some w \<Rightarrow> finOf w | None \<Rightarrow> 0) + finOf v"
  by (induction r) (auto simp: ownerSum_def ownerEntries_def)

lemma companyRow_ownerSum:
  assumes "\<forall>h \<in> set hs. isWhole h \<and> ownerName h \<noteq> totalHoldings"
    and "magnitude hs \<le> 2 ^ 53"
  shows "ownerSum (companyRow hs) = of_int (\<Sum>h\<leftarrow>hs. wholeQuantity h)"
  using assms
proof (induction hs rule: rev_induct)
  case Nil
  then show ?case by (simp add: companyRow_Nil ownerSum_def ownerEntries_def)
next
  case (snoc h hs)
  have nth: "filter (\<lambda>h. ownerName h = totalHoldings) hs = []"
    using snoc.prems(1) by (auto simp: filter_empty_conv)
  have mag: "magnitude hs \<le> 2 ^ 53" and magz: "magnitude hs + \<bar>wholeQuantity h\<bar> \<le> 2 ^ 53"
    using snoc.prems(2) magnitude_nonneg[of "[h]"] by (simp_all add: magnitude_append, simp_all add: magnitude_def)
  have vals: "map_of (companyRow hs) k =
           (if k = totalHoldings \<or> k \<in> ownerName ` set hs
            then Some (Fin (of_int (cellSum hs k))) else None)" for k
    using snoc.prems(1) mag by (intro companyRow_values) (simp_all add: nth magnitude_def)
  have w: "ownerName h \<noteq> totalHoldings" and tot: "total h = Fin (of_int (wholeQuantity h))"
    using snoc.prems(1) by (simp_all add: isWhole_def)
  have oldv: "(case map_of (companyRow hs) (ownerName h) of Some v \<Rightarrow> orZero v | None \<Rightarrow> Fin 0)
               = Fin (of_int (cellSum hs (ownerName h)))"
    by (simp add: vals orZero_Fin cellSum_absent w)
  have oldf: "(case map_of (companyRow hs) (ownerName h) of Some v \<Rightarrow> finOf v | None \<Rightarrow> 0)
               = of_int (cellSum hs (ownerName h))"
    by (simp add: vals cellSum_absent w)
  have "\<bar>cellSum hs (ownerName h)\<bar> \<le> magnitude hs"
    using cellSum_bound[of hs "ownerName h"] by (simp add: nth magnitude_def)
  then have v1: "plusN (Fin (of_int (cellSum hs (ownerName h)))) (Fin (of_int (wholeQuantity h)))
              = Fin (of_int (cellSum hs (ownerName h) + wholeQuantity h))"
    using magz by (intro plusN_int) simp
  have "ownerSum (companyRow (hs @ [h])) = ownerSum (companyRow hs) + of_int (wholeQuantity h)"
    using w by (simp add: companyRow_snoc addToRow_def Let_def ownerSum_setProp_total
                 ownerSum_setProp_owner oldv oldf tot v1 del: plusN.simps)
  also have "ownerSum (companyRow hs) = of_int (\<Sum>h\<leftarrow>hs. wholeQuantity h)"
    using snoc.prems(1) mag by (intro snoc.IH) simp_all
  finally show ?case by simp
qed

lemma companyRow_total_matches:
  assumes "\<forall>h \<in> set hs. isWhole h \<and> ownerName h \<noteq> totalHoldings"
    and "magnitude hs \<le> 2 ^ 53"
  shows "totalMatchesOwners (companyRow hs)"
proof -
  have nth: "filter (\<lambda>h. ownerName h = totalHoldings) hs = []"
    using assms(1) by (auto simp: filter_empty_conv)
  have vals: "map_of (companyRow hs) k =
           (if k = totalHoldings \<or> k \<in> ownerName ` set hs
            then Some (Fin (of_int (cellSum hs k))) else None)" for k
    using assms by (intro companyRow_values) (simp_all add: nth magnitude_def)
  have fin: "isFinite (snd e)" if "e \<in> set (companyRow hs)" for e
  proof -
    from that have "map_of (companyRow hs) (fst e) = Some (snd e)"
      by (simp add: distinct_companyRow)
    then have "snd e = Fin (of_int (cellSum hs (fst e)))"
      by (simp add: vals split: if_splits)
    then show ?thesis by simp
  qed
  have "map_of (companyRow hs) totalHoldings = Some (Fin (of_int (\<Sum>h\<leftarrow>hs. wholeQuantity h)))"
    by (simp add: vals cellSum_def nth)
  then show ?thesis
    using companyRow_ownerSum[OF assms] fin
    by (simp add: totalMatchesOwners_def list_all_iff ownerEntries_def)
qed


section \<open>Additions that round\<close>

lemma bitLength_eq: "2 ^ k \<le> n \<Longrightarrow> n < 2 ^ Suc k \<Longrightarrow> bitLength n = Suc k"
proof (induction k arbitrary: n)
  case 0
  then have "n = 1" by simp
  then show ?case by (subst bitLength.simps, subst bitLength.simps) simp
next
  case (Suc k)
  then have "2 ^ k \<le> n div 2" "n div 2 < 2 ^ Suc k" "n \<noteq> 0" by auto
  then show ?case
    using Suc.IH[of "n div 2"] by (subst bitLength.simps) simp
qed

lemma bitLength_above: "bitLength 9007199254740993 = 54" "bitLength 9007199254740994 = 54"
  using bitLength_eq[of 53 9007199254740993] bitLength_eq[of 53 9007199254740994] by simp_all

lemma floor_half_above: "\<lfloor>(9007199254740993 :: rat) / 2\<rfloor> = 4503599627370496"
  by (simp add: floor_eq_iff)

lemma roundDouble_above: "roundDouble 9007199254740993 = Fin 9007199254740992"
  by (simp add: roundDouble_def floorLog2_def bitLength_above Let_def pow2_def roundHalfEven_def
                floor_half_above)

lemma roundDouble_above_even: "roundDouble 9007199254740994 = Fin 9007199254740994"
  by (simp add: roundDouble_def floorLog2_def bitLength_above Let_def pow2_def roundHalfEven_def)

lemma roundDouble_one: "roundDouble 1 = Fin 1"
  using roundDouble_of_int[of 1] by simp

lemma roundDouble_numeral:
  "(numeral w :: int) \<le> 2 ^ 53 \<Longrightarrow> roundDouble (numeral w) = Fin (numeral w)"
  using roundDouble_of_int[of "numeral w"] by simp

lemmas buildPivot_eval =
  buildPivot_def addToPivot_def addToRow_def Let_def holding_def totalHoldings_def orZero_def
  roundDouble_one roundDouble_numeral roundDouble_above roundDouble_above_even

lemma roundingRecords_table:
  "buildPivot roundingRecords
     = [(''Acme'', [(''Total Holdings'', Fin 9007199254740992),
                    (''x'', Fin 9007199254740992), (''y'', Fin 2)])]"
  by (simp add: roundingRecords_def buildPivot_eval)

lemma roundingRecords_rev_table:
  "buildPivot (rev roundingRecords)
     = [(''Acme'', [(''Total Holdings'', Fin 9007199254740994),
                    (''y'', Fin 2), (''x'', Fin 9007199254740992)])]"
  by (simp add: roundingRecords_def buildPivot_eval)

lemma scenario_table: "buildPivot scenario = scenarioTable"
  by (simp add: scenario_def scenarioTable_def buildPivot_eval)

text \<open>
  The workbook \<open>acmeBook\<close> uploaded as \<open>Total Holdings.xlsx\<close>: the owner taken from the
  file name is \<open>Total Holdings\<close>, and the one record of 5 puts 10 under that key.
\<close>

lemma totalHoldingsUpload_records:
  "processFile sampleRuntime (''Total Holdings.xlsx'', Inr acmeBook)
     = ([holding ''Acme'' ''Total Holdings'' 5], [])"
  by code_simp

lemma totalHoldingsUpload_table:
  "pivotData (processFiles sampleRuntime initialState totalHoldingsUpload)
     = Some [(''Acme'', [(''Total Holdings'', Fin 10)])]"
  by (simp add: processFiles_def foldRecords_def initialState_def totalHoldingsUpload_def
                totalHoldingsUpload_records buildPivot_eval)

lemma scenario_plain: "list_all plainRecord scenario"
  by (simp add: scenario_def holding_def plainRecord_def plainKey_def objectPrototypeKeys_def)

text \<open>
  The workbooks \<open>x.xlsx\<close> and \<open>y.xlsx\<close> uploaded together give \<open>roundingRecords\<close>, in
  the order of the files; all of these records are plain.
\<close>

lemma bigBook_records:
  "processFile sampleRuntime (''x.xlsx'', Inr bigBook)
     = ([holding ''Acme'' ''x'' 9007199254740992], [])"
  by code_simp

lemma smallBook_records:
  "processFile sampleRuntime (''y.xlsx'', Inr smallBook)
     = ([holding ''Acme'' ''y'' 1, holding ''Acme'' ''y'' 1], [])"
  by code_simp

lemma roundingUpload_records:
  "allData (processFiles sampleRuntime initialState roundingUpload) = roundingRecords"
  "allData (processFiles sampleRuntime initialState (rev roundingUpload)) = rev roundingRecords"
  by (simp_all add: processFiles_def foldRecords_def initialState_def roundingUpload_def
                    roundingRecords_def bigBook_records smallBook_records)

lemma roundingUpload_table:
  "pivotData (processFiles sampleRuntime initialState roundingUpload)
     = Some (buildPivot roundingRecords)"
  "pivotData (processFiles sampleRuntime initialState (rev roundingUpload))
     = Some (buildPivot (rev roundingRecords))"
  by (simp_all add: processFiles_def foldRecords_def initialState_def roundingUpload_def
                    roundingRecords_def bigBook_records smallBook_records)

lemma roundingRecords_plain: "list_all plainRecord roundingRecords"
  by (simp add: roundingRecords_def holding_def plainRecord_def plainKey_def
                objectPrototypeKeys_def)

section \<open>The invariant of the table\<close>

text \<open>
  Claim C3, as the specification states it, fails in two ways. A file named
  \<open>Total Holdings.xlsx\<close> gives the owner \<open>Total Holdings\<close>, whose quantity is added
  twice to the total and to no owner: its holding of 5 leaves a total of 10 and no owner
  value. And the total is a rounded sum: the upload of \<open>x.xlsx\<close> and \<open>y.xlsx\<close>, whose
  records are plain and hold the quantities \<open>2^53\<close>, 1 and 1 of one company, leaves the
  total \<open>2^53\<close>, while the owners hold \<open>2^53\<close> and 2.
\<close>

theorem total_differs_from_owner_sum:
  "pivotData (processFiles sampleRuntime initialState totalHoldingsUpload)
     = Some [(''Acme'', [(''Total Holdings'', Fin 10)])]
   \<and> \<not> pivotInvariant [(''Acme'', [(''Total Holdings'', Fin 10)])]
   \<and> list_all plainRecord roundingRecords
   \<and> pivotData (processFiles sampleRuntime initialState roundingUpload)
       = Some [(''Acme'', [(''Total Holdings'', Fin 9007199254740992),
                           (''x'', Fin 9007199254740992), (''y'', Fin 2)])]
   \<and> \<not> pivotInvariant [(''Acme'', [(''Total Holdings'', Fin 9007199254740992),
                                     (''x'', Fin 9007199254740992), (''y'', Fin 2)])]"
  by (simp add: totalHoldingsUpload_table roundingUpload_table roundingRecords_table
                roundingRecords_plain pivotInvariant_def
                totalMatchesOwners_def ownerEntries_def ownerSum_def totalHoldings_def)

text \<open>
  Claim C3, amended. When every record is plain (neither its company nor its owner is a
  property name of \<open>Object.prototype\<close>), every quantity is a whole number, the absolute
  values of the quantities sum to at most \<open>2^53\<close>, and no owner is named
  \<open>Total Holdings\<close>, then after every record folded into the empty table, the total of
  every company is finite and is the sum of the values of its owners.
\<close>

theorem total_is_sum_of_owners:
  assumes "\<forall>h \<in> set rs. plainRecord h \<and> isWhole h \<and> ownerName h \<noteq> totalHoldings"
    and "magnitude rs \<le> 2 ^ 53"
  shows "\<forall>n \<le> length rs. pivotInvariant (buildPivot (take n rs))"
proof (intro allI impI)
  fix n
  let ?rs = "take n rs"
  have whole: "\<forall>h \<in> set ?rs. isWhole h \<and> ownerName h \<noteq> totalHoldings"
    using assms(1) by (auto dest: in_set_takeD)
  have mag: "magnitude ?rs \<le> 2 ^ 53"
    using magnitude_take_le[of n rs] assms(2) by simp
  have "totalMatchesOwners r" if "(c, r) \<in> set (buildPivot ?rs)" for c r
  proof -
    from that have "map_of (buildPivot ?rs) c = Some r"
      by (simp add: distinct_buildPivot)
    then have r: "r = companyRow (recordsOf c ?rs)"
      by (simp add: map_of_buildPivot split: if_splits)
    have "\<forall>h \<in> set (recordsOf c ?rs). isWhole h \<and> ownerName h \<noteq> totalHoldings"
      using whole by (simp add: recordsOf_def)
    moreover have "magnitude (recordsOf c ?rs) \<le> 2 ^ 53"
      using magnitude_filter_le[of "\<lambda>h. companyName h = c" ?rs] mag by (simp add: recordsOf_def)
    ultimately show ?thesis unfolding r by (rule companyRow_total_matches)
  qed
  then show "pivotInvariant (buildPivot ?rs)"
    by (auto simp: pivotInvariant_def list_all_iff)
qed

theorem total_is_sum_of_owners_witness:
  "list_all (\<lambda>h. plainRecord h \<and> isWhole h \<and> ownerName h \<noteq> totalHoldings) scenario
   \<and> magnitude scenario \<le> 2 ^ 53
   \<and> pivotInvariant (buildPivot (take 1 scenario))
   \<and> pivotInvariant (buildPivot (take 2 scenario))
   \<and> pivotInvariant (buildPivot (take 3 scenario))
   \<and> buildPivot (take 3 scenario) = scenarioTable"
proof -
  have a: "list_all (\<lambda>h. plainRecord h \<and> isWhole h \<and> ownerName h \<noteq> totalHoldings) scenario"
    using scenario_plain
    by (simp add: scenario_def holding_def isWhole_def wholeQuantity_def totalHoldings_def)
  have b: "magnitude scenario \<le> 2 ^ 53"
    by (simp add: scenario_def holding_def magnitude_def wholeQuantity_def)
  have c: "length scenario = 3" by (simp add: scenario_def)
  from a have "\<forall>h \<in> set scenario.
      plainRecord h \<and> isWhole h \<and> ownerName h \<noteq> totalHoldings"
    by (simp add: list_all_iff)
  from total_is_sum_of_owners[OF this b]
  have inv: "pivotInvariant (buildPivot (take n scenario))" if "n \<le> 3" for n
    using that c by simp
  from inv[of 1] inv[of 2] inv[of 3] a b c scenario_table show ?thesis by simp
qed


section \<open>The order of the records\<close>

lemma sum_list_map_mset:
  assumes "mset xs = mset ys"
  shows "sum_list (map f xs) = (sum_list (map f ys) :: int)"
proof -
  from assms have "mset (map f xs) = mset (map f ys)" by simp
  then have "sum_mset (mset (map f xs)) = sum_mset (mset (map f ys))" by (rule arg_cong)
  then show ?thesis by (simp only: sum_mset_sum_list)
qed

lemma magnitude_mset: "mset hs = mset hs' \<Longrightarrow> magnitude hs = magnitude hs'"
  unfolding magnitude_def by (rule sum_list_map_mset)

lemma cellSum_mset:
  assumes "mset hs = mset hs'"
  shows "cellSum hs k = cellSum hs' k"
proof -
  have "mset (filter (\<lambda>h. ownerName h = k) hs) = mset (filter (\<lambda>h. ownerName h = k) hs')"
    using assms by simp
  then have owner: "(\<Sum>h\<leftarrow>filter (\<lambda>h. ownerName h = k) hs. wholeQuantity h)
                 = (\<Sum>h\<leftarrow>filter (\<lambda>h. ownerName h = k) hs'. wholeQuantity h)"
    by (rule sum_list_map_mset)
  have every: "(\<Sum>h\<leftarrow>hs. wholeQuantity h) = (\<Sum>h\<leftarrow>hs'. wholeQuantity h)"
    using assms by (rule sum_list_map_mset)
  show ?thesis by (simp only: cellSum_def owner every)
qed

lemma companyRow_same:
  assumes "mset hs = mset hs'" and "\<forall>h \<in> set hs. isWhole h" and "2 * magnitude hs \<le> 2 ^ 53"
  shows "sameKeys (companyRow hs) (companyRow hs')"
    and "map_of (companyRow hs) k = map_of (companyRow hs') k"
proof -
  have sets: "set hs = set hs'" using assms(1) by (rule mset_eq_setD)
  show "sameKeys (companyRow hs) (companyRow hs')"
    by (simp add: sameKeys_def keys_companyRow sets)
  have load: "magnitude xs + magnitude (filter (\<lambda>h. ownerName h = totalHoldings) xs) \<le> 2 ^ 53"
    if "2 * magnitude xs \<le> 2 ^ 53" for xs
    using that magnitude_filter_le[of "\<lambda>h. ownerName h = totalHoldings" xs] by simp
  have "2 * magnitude hs' \<le> 2 ^ 53"
    using assms(3) magnitude_mset[OF assms(1)] by simp
  then have "map_of (companyRow hs') k =
           (if k = totalHoldings \<or> k \<in> ownerName ` set hs'
            then Some (Fin (of_int (cellSum hs' k))) else None)"
    using assms(2) sets by (intro companyRow_values load) simp_all
  moreover have "map_of (companyRow hs) k =
           (if k = totalHoldings \<or> k \<in> ownerName ` set hs
            then Some (Fin (of_int (cellSum hs k))) else None)"
    using assms(2,3) by (intro companyRow_values load) simp_all
  ultimately show "map_of (companyRow hs) k = map_of (companyRow hs') k"
    by (simp add: sets cellSum_mset[OF assms(1)])
qed

lemma buildPivot_same:
  assumes "mset rs = mset rs'" and "\<forall>h \<in> set rs. isWhole h" and "2 * magnitude rs \<le> 2 ^ 53"
  shows "sameTable (buildPivot rs) (buildPivot rs')"
proof -
  have sets: "set rs = set rs'" using assms(1) by (rule mset_eq_setD)
  have keys: "sameKeys (buildPivot rs) (buildPivot rs')"
    by (simp add: sameKeys_def keys_buildPivot sets)
  have rows: "sameKeys (companyRow (recordsOf c rs)) (companyRow (recordsOf c rs'))
        \<and> (\<forall>k. map_of (companyRow (recordsOf c rs)) k = map_of (companyRow (recordsOf c rs')) k)"
    for c
  proof -
    have m: "mset (recordsOf c rs) = mset (recordsOf c rs')"
      using assms(1) by (simp add: recordsOf_def)
    have w: "\<forall>h \<in> set (recordsOf c rs). isWhole h"
      using assms(2) by (simp add: recordsOf_def)
    have b: "2 * magnitude (recordsOf c rs) \<le> 2 ^ 53"
      using assms(3) magnitude_filter_le[of "\<lambda>h. companyName h = c" rs]
      by (simp add: recordsOf_def)
    from companyRow_same[OF m w b] show ?thesis by simp
  qed
  show ?thesis
    unfolding sameTable_def
  proof (intro conjI ballI)
    show "sameKeys (buildPivot rs) (buildPivot rs')" by (rule keys)
  next
    fix c assume "c \<in> set (map fst (buildPivot rs))"
    then have c: "c \<in> companyName ` set rs" by (simp add: keys_buildPivot)
    then have c': "c \<in> companyName ` set rs'" by (simp add: sets)
    show "case (map_of (buildPivot rs) c, map_of (buildPivot rs') c) of
            (Some r, Some r') \<Rightarrow> sameKeys r r' \<and> (\<forall>k \<in> set (map fst r). map_of r k = map_of r' k)
          | _ \<Rightarrow> False"
      using rows[of c] c c' by (simp add: map_of_buildPivot)
  qed
qed

lemma foldUploads_snoc:
  "foldUploads (us @ [u]) = foldRecords (fst u) (foldUploads us) (snd u)"
  by (simp add: foldUploads_def)

lemma foldRecords_data: "allData (foldRecords n st newData) = allData st @ newData"
  by (simp add: foldRecords_def)

lemma foldRecords_pivot:
  "pivotData (foldRecords n st newData)
     = (if newData \<noteq> [] \<or> allData st \<noteq> [] then Some (buildPivot (allData st @ newData))
        else pivotData st)"
  by (simp add: foldRecords_def)

lemma foldUploads_data: "allData (foldUploads us) = concat (map snd us)"
  by (induction us rule: rev_induct)
     (simp_all add: foldUploads_snoc foldRecords_data, simp add: foldUploads_def initialState_def)

lemma foldUploads_pivot:
  "pivotData (foldUploads us)
     = (if concat (map snd us) = [] then None else Some (buildPivot (concat (map snd us))))"
proof (induction us rule: rev_induct)
  case Nil
  then show ?case by (simp add: foldUploads_def initialState_def)
next
  case (snoc u us)
  show ?case
  proof (cases "snd u = [] \<and> concat (map snd us) = []")
    case True
    then have "concat (map snd (us @ [u])) = []" by simp
    moreover have "pivotData (foldUploads (us @ [u])) = None"
      using True snoc.IH by (simp only: foldUploads_snoc foldRecords_pivot foldUploads_data) simp
    ultimately show ?thesis by simp
  next
    case False
    then have ne: "concat (map snd (us @ [u])) \<noteq> []" by auto
    have "pivotData (foldUploads (us @ [u])) = Some (buildPivot (concat (map snd us) @ snd u))"
      using False by (simp only: foldUploads_snoc foldRecords_pivot foldUploads_data) auto
    then have "pivotData (foldUploads (us @ [u])) = Some (buildPivot (concat (map snd (us @ [u]))))"
      by simp
    with ne show ?thesis by (simp only: if_False)
  qed
qed

text \<open>
  Claim C4, as the specification states it, fails: the sums are rounded, and rounding
  depends on the order. The workbooks \<open>x.xlsx\<close> and \<open>y.xlsx\<close> uploaded in this order
  give the plain records of quantities \<open>2^53\<close>, 1, 1 and the total \<open>2^53\<close>; uploaded in
  the other order they give the same records reversed and the total \<open>2^53 + 2\<close>.
\<close>

theorem fold_order_changes_total:
  "list_all plainRecord roundingRecords
   \<and> allData (processFiles sampleRuntime initialState roundingUpload) = roundingRecords
   \<and> allData (processFiles sampleRuntime initialState (rev roundingUpload))
       = rev roundingRecords
   \<and> pivotData (processFiles sampleRuntime initialState roundingUpload)
       = Some [(''Acme'', [(''Total Holdings'', Fin 9007199254740992),
                           (''x'', Fin 9007199254740992), (''y'', Fin 2)])]
   \<and> pivotData (processFiles sampleRuntime initialState (rev roundingUpload))
       = Some [(''Acme'', [(''Total Holdings'', Fin 9007199254740994),
                           (''y'', Fin 2), (''x'', Fin 9007199254740992)])]
   \<and> \<not> sameTable (buildPivot roundingRecords) (buildPivot (rev roundingRecords))"
  by (simp add: roundingRecords_plain roundingUpload_records roundingUpload_table
                roundingRecords_table roundingRecords_rev_table sameTable_def sameKeys_def)

text \<open>
  Claim C4, amended. When every record is plain (neither its company nor its owner is a
  property name of \<open>Object.prototype\<close>), every quantity is a whole number and twice the
  sum of the absolute values of the quantities is at most \<open>2^53\<close>, any two orders of the
  same records give the same table: the same company keys, and for every company the same
  keys and the same value under every key, \<open>Total Holdings\<close> included. Splitting the
  records over any number of uploads gives the very table of a single fold of all of
  them.
\<close>

theorem fold_order_irrelevant:
  assumes "mset rs = mset rs'"
    and "\<forall>h \<in> set rs. plainRecord h \<and> isWhole h"
    and "2 * magnitude rs \<le> 2 ^ 53"
  shows "sameTable (buildPivot rs) (buildPivot rs')
     \<and> (\<forall>us. concat (map snd us) = rs' \<longrightarrow>
           pivotData (foldUploads us) = (if rs' = [] then None else Some (buildPivot rs')))"
proof (intro conjI allI impI)
  from assms(2) have "\<forall>h \<in> set rs. isWhole h" by simp
  from buildPivot_same[OF assms(1) this assms(3)]
  show "sameTable (buildPivot rs) (buildPivot rs')" .
next
  fix us :: "(nat \<times> HoldingData list) list"
  assume "concat (map snd us) = rs'"
  then show "pivotData (foldUploads us) = (if rs' = [] then None else Some (buildPivot rs'))"
    using foldUploads_pivot[of us] by simp
qed

theorem fold_order_irrelevant_witness:
  "mset scenario = mset (rev scenario)
   \<and> list_all (\<lambda>h. plainRecord h \<and> isWhole h) scenario
   \<and> 2 * magnitude scenario \<le> 2 ^ 53
   \<and> sameTable (buildPivot scenario) (buildPivot (rev scenario))
   \<and> mset scenario = mset (concat (map snd scenarioUploads))
   \<and> sameTable (buildPivot scenario) (buildPivot (concat (map snd scenarioUploads)))
   \<and> pivotData (foldUploads scenarioUploads) = Some (buildPivot (concat (map snd scenarioUploads)))"
proof -
  have a: "list_all (\<lambda>h. plainRecord h \<and> isWhole h) scenario"
    using scenario_plain by (simp add: scenario_def holding_def isWhole_def wholeQuantity_def)
  have b: "2 * magnitude scenario \<le> 2 ^ 53"
    by (simp add: scenario_def holding_def magnitude_def wholeQuantity_def)
  have c: "concat (map snd scenarioUploads) = scenario"
    by (simp add: scenarioUploads_def scenario_def)
  have d: "scenario \<noteq> []" by (simp add: scenario_def)
  from a have w: "\<forall>h \<in> set scenario. plainRecord h \<and> isWhole h" by (simp add: list_all_iff)
  have m1: "mset scenario = mset (rev scenario)" by simp
  have m2: "mset scenario = mset (concat (map snd scenarioUploads))" by (simp add: c)
  have s1: "sameTable (buildPivot scenario) (buildPivot (rev scenario))"
    using fold_order_irrelevant[OF m1 w b] by (rule conjunct1)
  have s2: "sameTable (buildPivot scenario) (buildPivot (concat (map snd scenarioUploads)))"
    using fold_order_irrelevant[OF m2 w b] by (rule conjunct1)
  have "concat (map snd scenarioUploads) \<noteq> []" by (simp only: c d not_False_eq_True)
  with fold_order_irrelevant[OF m2 w b, THEN conjunct2, rule_format, of scenarioUploads]
  have p: "pivotData (foldUploads scenarioUploads)
             = Some (buildPivot (concat (map snd scenarioUploads)))"
    by (simp only: if_False simp_thms)
  from m1 a b s1 m2 s2 p show ?thesis by (intro conjI)
qed


end
